theory Spec2Isabelle
  imports Main "HOL-Library.Word"
begin

section \<open>The master graph of the RALI augmentation pipeline\<close>

text \<open>
  A shallow embedding of \<^verbatim>\<open>rali/source/master_graph.cpp\<close> (class \<^verbatim>\<open>MasterGraph\<close>) and of
  the WarpAffine kernel binding (\<^verbatim>\<open>validateWarpAffine\<close>).

  The object is a record, every member function takes the record and returns the
  updated one. A \<^verbatim>\<open>THROW\<close> is the left summand of the result, paired with the state the
  object is left in, since the object outlives the exception. Calls that leave the
  translation unit (loader modules, nodes, the OpenVX graph, OpenCL) are appended to
  a trace in call order; what such a call answers is read from an environment record,
  as a function of the calls made so far.
\<close>

subsection \<open>Enumerations and errors\<close>

datatype RaliMemType = OCL | HOST

datatype RaliTensorFormat = NHWC | NCHW

text \<open>
  \<^verbatim>\<open>RaliAffinity\<close>: the two enumerators, and any other value of the underlying type, for
  which \<^verbatim>\<open>get_ago_affinity_info\<close> has its \<^verbatim>\<open>default\<close> branch.
\<close>

datatype RaliAffinity = GPU | CPU | RaliAffinity_other int

datatype AgoTargetAffinity = AGO_TARGET_AFFINITY_GPU | AGO_TARGET_AFFINITY_CPU

record AgoTargetAffinityInfo =
  device_type :: AgoTargetAffinity
  device_info :: int

text \<open>\<^verbatim>\<open>MasterGraph::Status\<close>: the two values the source file returns.\<close>

datatype Status = Status_OK | Status_NOT_IMPLEMENTED

text \<open>\<^verbatim>\<open>LoaderModuleStatus\<close>: \<^verbatim>\<open>OK\<close> and the failure codes, which the source never tells apart.\<close>

datatype LoaderModuleStatus = LoaderModuleStatus_OK | LoaderModuleStatus_FAILED nat

text \<open>
  A thrown exception carries its message, kept as the pieces the source concatenates
  (\<^verbatim>\<open>TOSTR\<close> of a number stays the number). Two more outcomes are not exceptions of the
  source but the ways a C++ function has of not returning normally: an access outside
  an array, a call through a null pointer, and a loop whose counter wraps around before
  it reaches its bound.
\<close>

datatype msg_part = Str string | Num int

datatype error = Thrown "msg_part list" | OutOfBounds | NullPointer | Diverges

subsection \<open>Machine arithmetic\<close>

text \<open>
  \<^verbatim>\<open>size_t\<close> is 64 bits wide and \<^verbatim>\<open>unsigned\<close> and \<^verbatim>\<open>int\<close> 32 bits; values are kept as
  \<^typ>\<open>nat\<close> and \<^typ>\<open>int\<close> with the wrap-around of every operation written out.
\<close>

definition size_t :: "nat \<Rightarrow> nat" where
  "size_t n = n mod 2 ^ 64"

definition size_t_sub :: "nat \<Rightarrow> nat \<Rightarrow> nat" where
  "size_t_sub a b = (a + 2 ^ 64 - b mod 2 ^ 64) mod 2 ^ 64"

definition unsigned :: "nat \<Rightarrow> nat" where
  "unsigned n = n mod 2 ^ 32"

text \<open>Conversion of an integer value to \<^verbatim>\<open>int\<close> (two's complement, 32 bits).\<close>

definition to_int :: "int \<Rightarrow> int" where
  "to_int v = (v + 2 ^ 31) mod 2 ^ 32 - 2 ^ 31"

text \<open>Conversion of an \<^verbatim>\<open>int\<close> to \<^verbatim>\<open>size_t\<close>: the value modulo \<open>2 ^ 64\<close>.\<close>

definition int_to_size_t :: "int \<Rightarrow> nat" where
  "int_to_size_t v = nat (v mod 2 ^ 64)"

subsection \<open>Images\<close>

text \<open>
  Modelled from the spec: \<^verbatim>\<open>ImageInfo\<close> and \<^verbatim>\<open>Image\<close> are declared in headers that are
  not part of the examined sources. The descriptor has the fields the spec lists
  (width, batch-stacked height, colour-plane count, colour format, memory kind, type
  tag), and two descriptors are equal when all fields are.
\<close>

datatype ImageInfo_Type = UNKNOWN | REGULAR | VIRTUAL | HANDLE

datatype RaliColorFormat = RGB24 | BGR24 | U8

record ImageInfo =
  width :: nat
  height_batch :: nat
  color_plane_count :: nat
  color_format :: RaliColorFormat
  mem_type :: RaliMemType
  type :: ImageInfo_Type

text \<open>
  An image object: its descriptor and the bytes of its backing buffer, by offset.
  The source holds images by pointer; a pointer is an address (a \<^typ>\<open>nat\<close>) into the
  store of image objects kept in the state.
\<close>

record Image =
  info :: ImageInfo
  buffer :: "nat \<Rightarrow> 8 word"

text \<open>A processing node: an identity and the images it writes (\<^verbatim>\<open>node->output()\<close>).\<close>

record Node =
  node_id :: nat
  node_output :: "nat list"

subsection \<open>Calls that leave the translation unit\<close>

datatype timer = ProcessTime | ConvertTime

datatype event =
    VxCreateContext
  | VxGetStatus
  | VxSetContextAttribute AgoTargetAffinityInfo
  | VxLoadKernels string
  | InitOcl
  | RenewParameters
  | TimerStart timer
  | TimerEnd timer
  | LoadNext nat LoaderModuleStatus
  | LoaderReset nat
  | GraphProcess
  | NodeUpdateParameters nat
  | GraphCreate
  | CreateVirtual nat
  | NodeCreate nat
  | GraphVerify
  | ClCreateBuffer nat
  | GraphRelease
  | VxReleaseContext nat
  | LogMessage "msg_part list"
  | DeleteImage nat
  | ClReleaseMemObject nat
  | CopyData nat nat bool
  | ClSetKernelArg nat
  | ClEnqueueNDRangeKernel string nat nat
  | ClEnqueueReadBuffer nat

text \<open>
  The environment: for each external call, its answer given the calls made so far.
  \<^verbatim>\<open>CL_SUCCESS\<close> and \<^verbatim>\<open>VX_SUCCESS\<close> are 0, as in the OpenCL and OpenVX headers.
\<close>

record env =
  vxCreateContext :: "event list \<Rightarrow> nat option"
  vxGetStatus :: "event list \<Rightarrow> int"
  vxSetContextAttribute :: "event list \<Rightarrow> int"
  vxLoadKernels :: "string \<Rightarrow> event list \<Rightarrow> int"
  init_ocl :: "event list \<Rightarrow> error option"
  load_next :: "nat \<Rightarrow> event list \<Rightarrow> LoaderModuleStatus"
  loader_count :: "nat \<Rightarrow> event list \<Rightarrow> int"
  graph_process :: "event list \<Rightarrow> error option"
  graph_create :: "event list \<Rightarrow> error + nat"
  create_virtual :: "Image \<Rightarrow> Image"
  node_create :: "nat \<Rightarrow> event list \<Rightarrow> error option"
  graph_verify :: "event list \<Rightarrow> error option"
  clCreateBuffer :: "nat \<Rightarrow> event list \<Rightarrow> nat option \<times> int"
  vxReleaseContext :: "nat \<Rightarrow> event list \<Rightarrow> int \<times> nat option"
  copy_data :: "Image \<Rightarrow> nat \<Rightarrow> bool \<Rightarrow> (nat \<Rightarrow> 8 word) \<Rightarrow> (nat \<Rightarrow> 8 word)"
  clSetKernelArg :: "nat \<Rightarrow> event list \<Rightarrow> int"
  clEnqueueNDRangeKernel :: "event list \<Rightarrow> int"
  clEnqueueReadBuffer :: "event list \<Rightarrow> int"

subsection \<open>The object\<close>

text \<open>
  The members of \<^verbatim>\<open>MasterGraph\<close> that the functions below read or write, under their
  names without the leading underscore (\<^verbatim>\<open>_context\<close> is \<open>vx_context\<close>, and \<^verbatim>\<open>_mem_type\<close> is
  \<open>graph_mem_type\<close>, the descriptor having a \<open>mem_type\<close> of its own). A null pointer or null
  handle is \<open>None\<close>. The two timers are objects of their own: their calls are in the
  trace.
\<close>

record MasterGraph =
  output_tensor :: "nat option"
  graph :: "nat option"
  affinity :: RaliAffinity
  gpu_id :: int
  batch_size :: nat
  cpu_threads :: nat
  graph_mem_type :: RaliMemType
  vx_context :: "nat option"
  graph_verfied :: bool
  loader_modules :: "nat list"
  nodes :: "Node list"
  output_images :: "nat list"
  internal_images :: "nat list"
  output_image_info :: ImageInfo
  images :: "nat \<Rightarrow> Image"
  trace :: "event list"

definition emit :: "event \<Rightarrow> MasterGraph \<Rightarrow> MasterGraph" where
  "emit e mg = mg\<lparr>trace := trace mg @ [e]\<rparr>"

subsection \<open>\<^verbatim>\<open>copy_output(cl_mem, size_t)\<close>\<close>

text \<open>
  The function returns in its first statement; the two timer calls and the second
  \<^verbatim>\<open>return\<close> after it are never reached.
\<close>

definition copy_output_cl_mem :: "MasterGraph \<Rightarrow> nat \<Rightarrow> nat \<Rightarrow> Status \<times> MasterGraph" where
  "copy_output_cl_mem mg out_ptr out_size = (Status_NOT_IMPLEMENTED, mg)"

subsection \<open>\<^verbatim>\<open>remaining_images_count\<close>\<close>

text \<open>
  \<^verbatim>\<open>count()\<close> of a loader module is a query: it leaves no call in the trace. Its value is
  stored in an \<^verbatim>\<open>int\<close>; the running minimum \<^verbatim>\<open>ret\<close> starts at the sentinel \<open>-1\<close>.
\<close>

fun remaining_loop :: "env \<Rightarrow> MasterGraph \<Rightarrow> nat list \<Rightarrow> int \<Rightarrow> int" where
  "remaining_loop ev mg [] ret = ret"
| "remaining_loop ev mg (loader_module # rest) ret =
     (let thisLoaderCount = to_int (loader_count ev loader_module (trace mg))
      in remaining_loop ev mg rest
           (if ret = - 1 then thisLoaderCount
            else if thisLoaderCount < ret then thisLoaderCount else ret))"

definition remaining_images_count :: "env \<Rightarrow> MasterGraph \<Rightarrow> nat" where
  "remaining_images_count ev mg = int_to_size_t (remaining_loop ev mg (loader_modules mg) (- 1))"

subsection \<open>\<^verbatim>\<open>run\<close> and \<^verbatim>\<open>update_parameters\<close>\<close>

text \<open>
  The loop over \<^verbatim>\<open>_loader_modules\<close>: each \<^verbatim>\<open>load_next()\<close> is recorded with the status it
  returned, and the first status other than \<^verbatim>\<open>OK\<close> throws out of the loop.
\<close>

fun load_loop :: "env \<Rightarrow> nat list \<Rightarrow> MasterGraph \<Rightarrow> (error + unit) \<times> MasterGraph" where
  "load_loop ev [] mg = (Inr (), mg)"
| "load_loop ev (loader_module # rest) mg =
     (let st = load_next ev loader_module (trace mg);
          mg' = emit (LoadNext loader_module st) mg
      in if st \<noteq> LoaderModuleStatus_OK
         then (Inl (Thrown [Str ''Loader module failed to laod next batch of images'']), mg')
         else load_loop ev rest mg')"

text \<open>\<^verbatim>\<open>_graph->process()\<close>: a call through \<^verbatim>\<open>_graph\<close>, which may throw.\<close>

definition process :: "env \<Rightarrow> MasterGraph \<Rightarrow> (error + unit) \<times> MasterGraph" where
  "process ev mg =
     (case graph mg of
        None \<Rightarrow> (Inl NullPointer, mg)
      | Some g \<Rightarrow>
          (case graph_process ev (trace mg) of
             Some e \<Rightarrow> (Inl e, emit GraphProcess mg)
           | None \<Rightarrow> (Inr (), emit GraphProcess mg)))"

fun update_loop :: "Node list \<Rightarrow> MasterGraph \<Rightarrow> MasterGraph" where
  "update_loop [] mg = mg"
| "update_loop (node # rest) mg =
     update_loop rest (emit (NodeUpdateParameters (node_id node)) mg)"

definition update_parameters :: "MasterGraph \<Rightarrow> Status \<times> MasterGraph" where
  "update_parameters mg = (Status_OK, update_loop (nodes mg) mg)"

definition run :: "env \<Rightarrow> MasterGraph \<Rightarrow> (error + Status) \<times> MasterGraph" where
  "run ev mg =
     (if \<not> graph_verfied mg then (Inl (Thrown [Str ''Graph not verified'']), mg)
      else
        let mg1 = emit RenewParameters mg;
            mg2 = emit (TimerStart ProcessTime) mg1
        in case load_loop ev (loader_modules mg2) mg2 of
             (Inl e, mg3) \<Rightarrow> (Inl e, mg3)
           | (Inr u, mg3) \<Rightarrow>
               (case process ev mg3 of
                  (Inl e, mg4) \<Rightarrow> (Inl e, mg4)
                | (Inr u, mg4) \<Rightarrow>
                    let mg5 = snd (update_parameters mg4)
                    in (Inr Status_OK, emit (TimerEnd ProcessTime) mg5)))"

subsection \<open>\<^verbatim>\<open>allocate_output_tensor\<close>, \<^verbatim>\<open>create_single_graph\<close> and \<^verbatim>\<open>build\<close>\<close>

text \<open>
  The element count is a product of \<^verbatim>\<open>size_t\<close> values and \<^verbatim>\<open>sizeof(cl_float)\<close> is 4. A
  buffer is created only when the outputs live in device memory; the event carries
  the size in bytes that was asked for.
\<close>

definition allocate_output_tensor :: "env \<Rightarrow> MasterGraph \<Rightarrow> (error + Status) \<times> MasterGraph" where
  "allocate_output_tensor ev mg =
     (let output_float_buffer_size =
            size_t (size_t (size_t (width (output_image_info mg) *
                                    height_batch (output_image_info mg)) *
                            color_plane_count (output_image_info mg)) *
                    length (output_images mg))
      in if mem_type (output_image_info mg) = OCL then
           let mg1 = mg\<lparr>output_tensor := None\<rparr>;
               sz = size_t (output_float_buffer_size * 4);
               r = clCreateBuffer ev sz (trace mg1);
               mg2 = emit (ClCreateBuffer sz) mg1
           in if fst r = None \<or> snd r \<noteq> 0
              then (Inl (Thrown [Str ''clCreateBuffer of size '', Num (int sz),
                                 Str '' failed '', Num (snd r)]), mg2)
              else (Inr Status_OK, mg2\<lparr>output_tensor := fst r\<rparr>)
         else (Inr Status_OK, mg))"

text \<open>
  The inner loop of \<^verbatim>\<open>create_single_graph\<close> over \<^verbatim>\<open>node->output()\<close>: an image whose type is
  still \<^verbatim>\<open>UNKNOWN\<close> is made virtual in place and appended to \<^verbatim>\<open>_internal_images\<close>.
\<close>

fun create_virtual_images :: "env \<Rightarrow> nat list \<Rightarrow> MasterGraph \<Rightarrow> MasterGraph" where
  "create_virtual_images ev [] mg = mg"
| "create_virtual_images ev (img # rest) mg =
     create_virtual_images ev rest
       (if type (info (images mg img)) = UNKNOWN
        then (emit (CreateVirtual img) mg)
               \<lparr>images := (images mg)(img := create_virtual ev (images mg img)),
                internal_images := internal_images mg @ [img]\<rparr>
        else mg)"

fun create_nodes :: "env \<Rightarrow> Node list \<Rightarrow> MasterGraph \<Rightarrow> (error + unit) \<times> MasterGraph" where
  "create_nodes ev [] mg = (Inr (), mg)"
| "create_nodes ev (node # rest) mg =
     (let mg1 = create_virtual_images ev (node_output node) mg;
          mg2 = emit (NodeCreate (node_id node)) mg1
      in case node_create ev (node_id node) (trace mg1) of
           Some e \<Rightarrow> (Inl e, mg2)
         | None \<Rightarrow> create_nodes ev rest mg2)"

definition create_single_graph :: "env \<Rightarrow> MasterGraph \<Rightarrow> (error + unit) \<times> MasterGraph" where
  "create_single_graph ev mg =
     (case graph_create ev (trace mg) of
        Inl e \<Rightarrow> (Inl e, emit GraphCreate mg)
      | Inr g \<Rightarrow>
          (case create_nodes ev (nodes mg) ((emit GraphCreate mg)\<lparr>graph := Some g\<rparr>) of
             (Inl e, mg2) \<Rightarrow> (Inl e, mg2)
           | (Inr u, mg2) \<Rightarrow>
               (case graph_verify ev (trace mg2) of
                  Some e \<Rightarrow> (Inl e, emit GraphVerify mg2)
                | None \<Rightarrow> (Inr (), emit GraphVerify mg2))))"

text \<open>
  \<^verbatim>\<open>build\<close>: the loop that compares every output image's descriptor with the first one
  has no effect but its \<^verbatim>\<open>THROW\<close>, so it is the test whether some image differs.
\<close>

definition build :: "env \<Rightarrow> MasterGraph \<Rightarrow> (error + Status) \<times> MasterGraph" where
  "build ev mg =
     (let mg0 = mg\<lparr>graph_verfied := False\<rparr>
      in case output_images mg0 of
           [] \<Rightarrow> (Inl (Thrown [Str ''No output images are there, cannot create the pipeline'']), mg0)
         | front # others \<Rightarrow>
             let mg1 = mg0\<lparr>output_image_info := info (images mg0 front)\<rparr>
             in if list_ex (\<lambda>output_image.
                              \<not> (info (images mg1 output_image) = output_image_info mg1))
                     (output_images mg1)
                then (Inl (Thrown [Str ''Dimension of the output images do not match'']), mg1)
                else (case allocate_output_tensor ev mg1 of
                        (Inl e, mg2) \<Rightarrow> (Inl e, mg2)
                      | (Inr u, mg2) \<Rightarrow>
                          (case create_single_graph ev mg2 of
                             (Inl e, mg3) \<Rightarrow> (Inl e, mg3)
                           | (Inr u, mg3) \<Rightarrow> (Inr Status_OK, mg3\<lparr>graph_verfied := True\<rparr>))))"

subsection \<open>\<^verbatim>\<open>release\<close> and the destructor\<close>

text \<open>
  \<^verbatim>\<open>delete image\<close> runs the image's destructor; the pointer stays in the list, and the
  list is not cleared.
\<close>

fun delete_images :: "nat list \<Rightarrow> MasterGraph \<Rightarrow> MasterGraph" where
  "delete_images [] mg = mg"
| "delete_images (img # rest) mg = delete_images rest (emit (DeleteImage img) mg)"

definition deallocate_output_tensor :: "MasterGraph \<Rightarrow> Status \<times> MasterGraph" where
  "deallocate_output_tensor mg =
     (case output_tensor mg of
        None \<Rightarrow> (Status_OK, mg)
      | Some t \<Rightarrow>
          if mem_type (output_image_info mg) = OCL
          then (Status_OK, emit (ClReleaseMemObject t) mg)
          else (Status_OK, mg))"

text \<open>
  \<^verbatim>\<open>vxReleaseContext(&_context)\<close> is handed the address of the member: what it leaves in
  \<^verbatim>\<open>_context\<close> is the second component of the environment's answer.
\<close>

definition release_context :: "env \<Rightarrow> MasterGraph \<Rightarrow> MasterGraph" where
  "release_context ev mg =
     (case vx_context mg of
        None \<Rightarrow> mg
      | Some c \<Rightarrow>
          let r = vxReleaseContext ev c (trace mg);
              mg' = (emit (VxReleaseContext c) mg)\<lparr>vx_context := snd r\<rparr>
          in if fst r \<noteq> 0
             then emit (LogMessage [Str ''Failed to call vxReleaseContext '', Num (fst r)]) mg'
             else mg')"

definition release :: "env \<Rightarrow> MasterGraph \<Rightarrow> MasterGraph" where
  "release ev mg =
     (let mg1 = mg\<lparr>graph_verfied := False\<rparr>;
          mg2 = (case graph mg1 of None \<Rightarrow> mg1 | Some g \<Rightarrow> emit GraphRelease mg1);
          mg3 = release_context ev mg2;
          mg4 = delete_images (internal_images mg3) mg3;
          mg5 = delete_images (output_images mg4) mg4
      in snd (deallocate_output_tensor mg5))"

definition destructor :: "env \<Rightarrow> MasterGraph \<Rightarrow> MasterGraph" where
  "destructor ev mg = release ev mg"

subsection \<open>The constructor\<close>

definition get_ago_affinity_info :: "RaliAffinity \<Rightarrow> int \<Rightarrow> int \<Rightarrow> error + AgoTargetAffinityInfo" where
  "get_ago_affinity_info rali_affinity cpu_id gpu_id_arg =
     (case rali_affinity of
        GPU \<Rightarrow> Inr \<lparr>device_type = AGO_TARGET_AFFINITY_GPU,
                    device_info = (if gpu_id_arg \<ge> 0 \<and> gpu_id_arg \<le> 9
                                   then gpu_id_arg else 0)\<rparr>
      | CPU \<Rightarrow> Inr \<lparr>device_type = AGO_TARGET_AFFINITY_CPU,
                    device_info = (if cpu_id \<ge> 0 \<and> cpu_id \<le> 9 then cpu_id else 0)\<rparr>
      | RaliAffinity_other v \<Rightarrow> Inl (Thrown [Str ''Unsupported affinity'']))"

text \<open>
  The \<^verbatim>\<open>try\<close> block of the constructor, on the object as the member initialisers left
  it. A failure to load \<^verbatim>\<open>vx_media\<close> is only a warning.
\<close>

definition construct :: "env \<Rightarrow> MasterGraph \<Rightarrow> (error + unit) \<times> MasterGraph" where
  "construct ev mg =
     (let mg1 = (emit VxCreateContext mg)\<lparr>vx_context := vxCreateContext ev (trace mg)\<rparr>;
          mg2 = mg1\<lparr>graph_mem_type := (if affinity mg1 = GPU then OCL else HOST)\<rparr>
      in case get_ago_affinity_info (affinity mg2) 0 (gpu_id mg2) of
           Inl e \<Rightarrow> (Inl e, mg2)
         | Inr vx_affinity \<Rightarrow>
             let mg3 = emit VxGetStatus mg2 in
             if vxGetStatus ev (trace mg2) \<noteq> 0
             then (Inl (Thrown [Str ''vxCreateContext failed'', Num (vxGetStatus ev (trace mg2))]),
                   mg3) else
             let mg4 = emit (VxSetContextAttribute vx_affinity) mg3 in
             if vxSetContextAttribute ev (trace mg3) \<noteq> 0
             then (Inl (Thrown [Str ''vxSetContextAttribute failed '',
                                Num (vxSetContextAttribute ev (trace mg3))]), mg4) else
             let mg5 = emit (VxLoadKernels ''vx_rpp'') mg4 in
             if vxLoadKernels ev ''vx_rpp'' (trace mg4) \<noteq> 0
             then (Inl (Thrown [Str ''Cannot load OpenVX augmentation extension (vx_rpp), vxLoadKernels failed '',
                                Num (vxLoadKernels ev ''vx_rpp'' (trace mg4))]), mg5) else
             let mg6 = emit (VxLoadKernels ''vx_media'') mg5;
                 mg7 = (if vxLoadKernels ev ''vx_media'' (trace mg5) \<noteq> 0
                        then emit (LogMessage [Str ''Cannot load AMD's OpenVX media extension, video decode functionality will not be available'']) mg6
                        else mg6)
             in if affinity mg7 = GPU
                then (case init_ocl ev (trace mg7) of
                        Some e \<Rightarrow> (Inl e, emit InitOcl mg7)
                      | None \<Rightarrow> (Inr (), emit InitOcl mg7))
                else (Inr (), mg7))"

text \<open>
  The constructor: the member initialisers, the \<^verbatim>\<open>try\<close> block, and on an exception
  \<^verbatim>\<open>release()\<close> before the exception is thrown on. The members without an initialiser
  start empty; the default descriptor, the store of image objects and the calls made
  before the object existed are given. When the constructor throws there is no object:
  the record returned with the error is what \<^verbatim>\<open>release\<close> left, kept for its trace.
\<close>

definition MasterGraph_new ::
  "env \<Rightarrow> ImageInfo \<Rightarrow> (nat \<Rightarrow> Image) \<Rightarrow> event list \<Rightarrow> nat \<Rightarrow> RaliAffinity \<Rightarrow> int \<Rightarrow> nat
   \<Rightarrow> error option \<times> MasterGraph" where
  "MasterGraph_new ev default_info store history batch affin gpu threads =
     (case construct ev
             \<lparr>output_tensor = None, graph = None, affinity = affin, gpu_id = gpu,
              batch_size = batch, cpu_threads = threads, graph_mem_type = HOST,
              vx_context = None, graph_verfied = False, loader_modules = [], nodes = [],
              output_images = [], internal_images = [], output_image_info = default_info,
              images = store, trace = history\<rparr> of
        (Inl e, mg) \<Rightarrow> (Some e, release ev mg)
      | (Inr u, mg) \<Rightarrow> (None, mg))"

text \<open>\<^verbatim>\<open>reset_loaders\<close> and \<^verbatim>\<open>mem_type\<close>.\<close>

fun reset_loop :: "nat list \<Rightarrow> MasterGraph \<Rightarrow> MasterGraph" where
  "reset_loop [] mg = mg"
| "reset_loop (loader_module # rest) mg = reset_loop rest (emit (LoaderReset loader_module) mg)"

definition reset_loaders :: "MasterGraph \<Rightarrow> Status \<times> MasterGraph" where
  "reset_loaders mg = (Status_OK, reset_loop (loader_modules mg) mg)"

definition mem_type_of :: "MasterGraph \<Rightarrow> RaliMemType" where
  "mem_type_of mg = graph_mem_type mg"

subsection \<open>\<^verbatim>\<open>copy_out_tensor\<close>\<close>

text \<open>
  Floating point is not interpreted: the type of \<^verbatim>\<open>float\<close> values is a parameter, and so
  are its addition, its multiplication and the conversion \<^verbatim>\<open>(float)\<close> of an
  \<^verbatim>\<open>unsigned char\<close>. The caller's buffer is a map from element offsets (relative to
  \<^verbatim>\<open>out_ptr\<close>) to floats.
\<close>

record 'f float_ops =
  fadd :: "'f \<Rightarrow> 'f \<Rightarrow> 'f"
  fmul :: "'f \<Rightarrow> 'f \<Rightarrow> 'f"
  of_uchar :: "8 word \<Rightarrow> 'f"

text \<open>A loop whose body may fail: the first failure leaves the loop.\<close>

primrec for_each :: "'a list \<Rightarrow> ('a \<Rightarrow> 's \<Rightarrow> error + 's) \<Rightarrow> 's \<Rightarrow> error + 's" where
  "for_each [] body s = Inr s"
| "for_each (x # xs) body s =
     (case body x s of Inl e \<Rightarrow> Inl e | Inr s' \<Rightarrow> for_each xs body s')"

text \<open>
  \<^verbatim>\<open>for(unsigned x = 0; x < bound; x++)\<close> with a \<^verbatim>\<open>size_t\<close> bound: the counter takes the
  values below the bound when the bound is below \<open>2 ^ 32\<close>. Otherwise the counter wraps
  to 0 before it reaches the bound and the loop is never left, unless the body fails
  in the first round.
\<close>

definition for_unsigned :: "nat \<Rightarrow> (nat \<Rightarrow> 's \<Rightarrow> error + 's) \<Rightarrow> 's \<Rightarrow> error + 's" where
  "for_unsigned bound body s =
     (if bound < 2 ^ 32 then for_each [0..<bound] body s
      else (case for_each [0..<2 ^ 32] body s of Inl e \<Rightarrow> Inl e | Inr s' \<Rightarrow> Inl Diverges))"

text \<open>
  The assignment in the body of the \<^verbatim>\<open>NHWC\<close> loops. \<^verbatim>\<open>multiplier\<close> and \<^verbatim>\<open>offset\<close> are the
  arrays of three floats; an index past their end is an access outside the array. All
  index arithmetic is in \<^verbatim>\<open>size_t\<close>.
\<close>

definition nhwc_store ::
  "'f float_ops \<Rightarrow> 'f list \<Rightarrow> 'f list \<Rightarrow> bool \<Rightarrow> (nat \<Rightarrow> 8 word) \<Rightarrow> nat \<Rightarrow> nat
   \<Rightarrow> nat \<Rightarrow> nat \<Rightarrow> (nat \<Rightarrow> 'f) \<Rightarrow> error + (nat \<Rightarrow> 'f)" where
  "nhwc_store fl multiplier offset reverse_channels in_buffer dest_buf_offset c channel_idx i out_ptr =
     (if channel_idx < length offset \<and> channel_idx < length multiplier
      then Inr (out_ptr
             (size_t (size_t (dest_buf_offset + channel_idx) + size_t (i * c)) :=
                fadd fl (offset ! channel_idx)
                  (fmul fl (multiplier ! channel_idx)
                     (if reverse_channels
                      then of_uchar fl
                             (in_buffer (size_t_sub (size_t_sub (size_t (size_t (i * c) + c))
                                                      channel_idx) 1))
                      else of_uchar fl (in_buffer (size_t (size_t (i * c) + channel_idx)))))))
      else Inl OutOfBounds)"

text \<open>The assignment in the body of the \<^verbatim>\<open>NCHW\<close> loops.\<close>

definition nchw_store ::
  "'f float_ops \<Rightarrow> 'f list \<Rightarrow> 'f list \<Rightarrow> bool \<Rightarrow> (nat \<Rightarrow> 8 word) \<Rightarrow> nat \<Rightarrow> nat
   \<Rightarrow> nat \<Rightarrow> nat \<Rightarrow> nat \<Rightarrow> (nat \<Rightarrow> 'f) \<Rightarrow> error + (nat \<Rightarrow> 'f)" where
  "nchw_store fl multiplier offset reverse_channels in_buffer dest_buf_offset c channel_size
       channel_idx i out_ptr =
     (if channel_idx < length offset \<and> channel_idx < length multiplier
      then Inr (out_ptr
             (size_t (size_t (dest_buf_offset + size_t (channel_idx * channel_size)) + i) :=
                fadd fl (offset ! channel_idx)
                  (fmul fl (multiplier ! channel_idx)
                     (if reverse_channels
                      then of_uchar fl
                             (in_buffer (size_t_sub (size_t_sub (size_t (size_t (c * i) + c))
                                                      channel_idx) 1))
                      else of_uchar fl (in_buffer (size_t (size_t (c * i) + channel_idx)))))))
      else Inl OutOfBounds)"

text \<open>
  The body of the host loop for one output image: the two \<^verbatim>\<open>if(format == ...)\<close> blocks one
  after the other, each with \<^verbatim>\<open>channel_size = w * h\<close>.
\<close>

definition convert_image ::
  "'f float_ops \<Rightarrow> RaliTensorFormat \<Rightarrow> 'f list \<Rightarrow> 'f list \<Rightarrow> bool \<Rightarrow> nat \<Rightarrow> nat \<Rightarrow> nat
   \<Rightarrow> nat \<Rightarrow> (nat \<Rightarrow> 8 word) \<Rightarrow> (nat \<Rightarrow> 'f) \<Rightarrow> error + (nat \<Rightarrow> 'f)" where
  "convert_image fl format multiplier offset reverse_channels w h c dest_buf_offset in_buffer out_ptr =
     (case (if format = NHWC
            then for_unsigned c
                   (\<lambda>channel_idx. for_unsigned (size_t (w * h))
                      (nhwc_store fl multiplier offset reverse_channels in_buffer
                         dest_buf_offset c channel_idx))
                   out_ptr
            else Inr out_ptr) of
        Inl e \<Rightarrow> Inl e
      | Inr out1 \<Rightarrow>
          if format = NCHW
          then for_unsigned c
                 (\<lambda>channel_idx. for_unsigned (size_t (w * h))
                    (nchw_store fl multiplier offset reverse_channels in_buffer
                       dest_buf_offset c (size_t (w * h)) channel_idx))
                 out1
          else Inr out1)"

fun host_loop ::
  "'f float_ops \<Rightarrow> RaliTensorFormat \<Rightarrow> 'f list \<Rightarrow> 'f list \<Rightarrow> bool \<Rightarrow> nat \<Rightarrow> nat \<Rightarrow> nat
   \<Rightarrow> nat \<Rightarrow> nat list \<Rightarrow> nat \<Rightarrow> MasterGraph \<Rightarrow> (nat \<Rightarrow> 'f) \<Rightarrow> error + (nat \<Rightarrow> 'f)" where
  "host_loop fl format multiplier offset reverse_channels w h c single_output_image_size
       [] dest_buf_offset mg out_ptr = Inr out_ptr"
| "host_loop fl format multiplier offset reverse_channels w h c single_output_image_size
       (out_image # rest) dest_buf_offset mg out_ptr =
     (case convert_image fl format multiplier offset reverse_channels w h c dest_buf_offset
             (buffer (images mg out_image)) out_ptr of
        Inl e \<Rightarrow> Inl e
      | Inr out' \<Rightarrow>
          host_loop fl format multiplier offset reverse_channels w h c single_output_image_size
            rest (size_t (dest_buf_offset + single_output_image_size)) mg out')"

text \<open>
  The device branch. For every output image the thirteen kernel arguments are set,
  each call checked by \<^verbatim>\<open>CHECK_CL_CALL_RET\<close>, and the kernel is enqueued; the offset is an
  \<^verbatim>\<open>unsigned\<close> here. What the kernels leave in the staging tensor is a parameter
  (\<open>dev\<close>, a function of the calls made); the final read copies \<^verbatim>\<open>read_size\<close> bytes of it,
  an \<^verbatim>\<open>int\<close>, to the caller's buffer.
\<close>

fun set_kernel_args :: "env \<Rightarrow> nat list \<Rightarrow> MasterGraph \<Rightarrow> (error + unit) \<times> MasterGraph" where
  "set_kernel_args ev [] mg = (Inr (), mg)"
| "set_kernel_args ev (argIdx # rest) mg =
     (let ret = clSetKernelArg ev argIdx (trace mg);
          mg' = emit (ClSetKernelArg argIdx) mg
      in if ret \<noteq> 0
         then (Inl (Thrown [Str ''ocl call failed '', Str ''clSetKernelArg'', Str '' error '',
                            Num ret]), mg')
         else set_kernel_args ev rest mg')"

fun ocl_loop ::
  "env \<Rightarrow> string \<Rightarrow> nat \<Rightarrow> nat list \<Rightarrow> nat \<Rightarrow> MasterGraph \<Rightarrow> (error + unit) \<times> MasterGraph" where
  "ocl_loop ev kernel_name single_output_image_size [] dest_buf_offset mg = (Inr (), mg)"
| "ocl_loop ev kernel_name single_output_image_size (out_image # rest) dest_buf_offset mg =
     (case set_kernel_args ev [0..<13] mg of
        (Inl e, mg1) \<Rightarrow> (Inl e, mg1)
      | (Inr u, mg1) \<Rightarrow>
          let status = clEnqueueNDRangeKernel ev (trace mg1);
              mg2 = emit (ClEnqueueNDRangeKernel kernel_name out_image dest_buf_offset) mg1
          in if status \<noteq> 0
             then (Inl (Thrown [Str ''clEnqueueNDRangeKernel failed on kernel '', Str kernel_name,
                                Str '' error '', Num status]), mg2)
             else ocl_loop ev kernel_name single_output_image_size rest
                    (unsigned (dest_buf_offset + single_output_image_size)) mg2)"

definition ocl_tensor ::
  "env \<Rightarrow> (event list \<Rightarrow> nat \<Rightarrow> 'f) \<Rightarrow> RaliTensorFormat \<Rightarrow> nat \<Rightarrow> MasterGraph \<Rightarrow> (nat \<Rightarrow> 'f)
   \<Rightarrow> (error + unit) \<times> MasterGraph \<times> (nat \<Rightarrow> 'f)" where
  "ocl_tensor ev dev format single_output_image_size mg out_ptr =
     (case ocl_loop ev (if format = NHWC then ''copyInt8ToNHWC'' else ''copyInt8ToNCHW'')
             single_output_image_size (output_images mg) 0 mg of
        (Inl e, mg1) \<Rightarrow> (Inl e, mg1, out_ptr)
      | (Inr u, mg1) \<Rightarrow>
          let read_size = to_int (int (size_t (size_t (single_output_image_size *
                                                      length (output_images mg1)) * 4)));
              status = clEnqueueReadBuffer ev (trace mg1);
              mg2 = emit (ClEnqueueReadBuffer (int_to_size_t read_size)) mg1
          in if status \<noteq> 0
             then (Inl (Thrown [Str ''clEnqueueReadBuffer failed: '', Num status]), mg2, out_ptr)
             else (Inr (), mg2,
                   (\<lambda>a. if 4 * a < int_to_size_t read_size then dev (trace mg1) a
                        else out_ptr a)))"

text \<open>
  \<^verbatim>\<open>copy_out_tensor\<close>: the device block and then the host block, each under its own test
  of the memory type.
\<close>

definition copy_out_tensor ::
  "env \<Rightarrow> 'f float_ops \<Rightarrow> (event list \<Rightarrow> nat \<Rightarrow> 'f) \<Rightarrow> MasterGraph \<Rightarrow> (nat \<Rightarrow> 'f)
   \<Rightarrow> RaliTensorFormat \<Rightarrow> 'f \<Rightarrow> 'f \<Rightarrow> 'f \<Rightarrow> 'f \<Rightarrow> 'f \<Rightarrow> 'f \<Rightarrow> bool
   \<Rightarrow> (error + Status) \<times> MasterGraph \<times> (nat \<Rightarrow> 'f)" where
  "copy_out_tensor ev fl dev mg out_ptr format multiplier0 multiplier1 multiplier2
       offset0 offset1 offset2 reverse_channels =
     (let mg1 = emit (TimerStart ConvertTime) mg;
          w = size_t (width (output_image_info mg1));
          h = size_t (height_batch (output_image_info mg1));
          c = size_t (color_plane_count (output_image_info mg1));
          single_output_image_size = size_t (size_t (w * h) * c)
      in case (if mem_type (output_image_info mg1) = OCL
               then ocl_tensor ev dev format single_output_image_size mg1 out_ptr
               else (Inr (), mg1, out_ptr)) of
           (Inl e, mg2, out2) \<Rightarrow> (Inl e, mg2, out2)
         | (Inr u, mg2, out2) \<Rightarrow>
             (case (if mem_type (output_image_info mg2) = HOST
                    then host_loop fl format [multiplier0, multiplier1, multiplier2]
                           [offset0, offset1, offset2] reverse_channels w h c
                           single_output_image_size (output_images mg2) 0 mg2 out2
                    else Inr out2) of
                Inl e \<Rightarrow> (Inl e, mg2, out2)
              | Inr out3 \<Rightarrow> (Inr Status_OK, emit (TimerEnd ConvertTime) mg2, out3)))"

subsection \<open>\<^verbatim>\<open>copy_output(unsigned char *)\<close>\<close>

text \<open>
  The caller's buffer is a map from byte offsets (relative to \<^verbatim>\<open>out_ptr\<close>) to bytes.
  \<^verbatim>\<open>memcpy(out_ptr + dest, src, n)\<close> overwrites the \<open>n\<close> bytes from offset \<open>dest\<close> on.
\<close>

definition memcpy :: "(nat \<Rightarrow> 8 word) \<Rightarrow> nat \<Rightarrow> (nat \<Rightarrow> 8 word) \<Rightarrow> nat \<Rightarrow> (nat \<Rightarrow> 8 word)" where
  "memcpy out_ptr dest src n = (\<lambda>a. if dest \<le> a \<and> a < dest + n then src (a - dest) else out_ptr a)"

text \<open>
  The host loop: one \<^verbatim>\<open>memcpy\<close> of \<^verbatim>\<open>size\<close> bytes per output image, the offset advancing
  by \<^verbatim>\<open>size\<close>.
\<close>

fun copy_loop_host ::
  "nat list \<Rightarrow> nat \<Rightarrow> nat \<Rightarrow> MasterGraph \<Rightarrow> (nat \<Rightarrow> 8 word) \<Rightarrow> (nat \<Rightarrow> 8 word)" where
  "copy_loop_host [] sz dest_buf_offset mg out_ptr = out_ptr"
| "copy_loop_host (output_image # rest) sz dest_buf_offset mg out_ptr =
     copy_loop_host rest sz (size_t (dest_buf_offset + sz)) mg
       (memcpy out_ptr dest_buf_offset (buffer (images mg output_image)) sz)"

text \<open>
  The device loop: \<^verbatim>\<open>out_image_idx\<close> starts at the number of output images and is
  decremented once per image before it is tested, so it never passes 0; only the last
  \<^verbatim>\<open>copy_data\<close> is synchronous. What \<^verbatim>\<open>Image::copy_data\<close> writes is the environment's.
\<close>

fun copy_loop_ocl ::
  "env \<Rightarrow> nat list \<Rightarrow> nat \<Rightarrow> nat \<Rightarrow> nat \<Rightarrow> MasterGraph \<Rightarrow> (nat \<Rightarrow> 8 word)
   \<Rightarrow> MasterGraph \<times> (nat \<Rightarrow> 8 word)" where
  "copy_loop_ocl ev [] out_image_idx sz dest_buf_offset mg out_ptr = (mg, out_ptr)"
| "copy_loop_ocl ev (output_image # rest) out_image_idx sz dest_buf_offset mg out_ptr =
     (let sync_flag = (out_image_idx - 1 = 0)
      in copy_loop_ocl ev rest (out_image_idx - 1) sz (size_t (dest_buf_offset + sz))
           (emit (CopyData output_image dest_buf_offset sync_flag) mg)
           (copy_data ev (images mg output_image) dest_buf_offset sync_flag out_ptr))"

definition copy_output ::
  "env \<Rightarrow> MasterGraph \<Rightarrow> (nat \<Rightarrow> 8 word) \<Rightarrow> Status \<times> MasterGraph \<times> (nat \<Rightarrow> 8 word)" where
  "copy_output ev mg out_ptr =
     (let mg1 = emit (TimerStart ConvertTime) mg;
          sz = size_t (size_t (width (output_image_info mg1) *
                               height_batch (output_image_info mg1)) *
                       color_plane_count (output_image_info mg1));
          r = (if mem_type (output_image_info mg1) = OCL
               then copy_loop_ocl ev (output_images mg1) (length (output_images mg1)) sz 0
                      mg1 out_ptr
               else (mg1, copy_loop_host (output_images mg1) sz 0 mg1 out_ptr))
      in (Status_OK, emit (TimerEnd ConvertTime) (fst r), snd r))"

subsection \<open>The WarpAffine kernel binding: \<^verbatim>\<open>validateWarpAffine\<close>\<close>

text \<open>
  The OpenVX status codes, scalar types and image formats that the function names, and
  one constructor each for all the others.
\<close>

datatype vx_status = VX_SUCCESS | VX_ERROR_INVALID_TYPE | VX_ERROR_INVALID_VALUE | VX_STATUS_OTHER int

datatype vx_type = VX_TYPE_INT32 | VX_TYPE_FLOAT32 | VX_TYPE_OTHER nat

datatype vx_df_image = VX_DF_IMAGE_VIRT | VX_DF_IMAGE_U8 | VX_DF_IMAGE_RGB | VX_DF_IMAGE_OTHER nat

datatype vx_meta_attribute = VX_IMAGE_FORMAT | VX_IMAGE_HEIGHT | VX_IMAGE_WIDTH

text \<open>The attributes of a meta format that the function sets; \<open>None\<close> is not set.\<close>

record vx_meta_format =
  meta_format :: "vx_df_image option"
  meta_height :: "32 word option"
  meta_width :: "32 word option"

text \<open>
  What the OpenVX framework answers for the node under validation: each query returns a
  status and the value it stored. \<open>vxQueryScalar k\<close> is the type query on
  \<^verbatim>\<open>parameters[k]\<close>; \<open>vxQueryParameter k\<close> is \<^verbatim>\<open>vxGetParameterByIndex(node, k)\<close> followed by the
  query for the image it refers to; \<open>vxSetMetaFormatAttribute\<close> gives the status of setting
  an attribute of \<^verbatim>\<open>metas[1]\<close>, which is stored when the status is \<^verbatim>\<open>VX_SUCCESS\<close>.
\<close>

record vx_framework =
  vxQueryScalar :: "nat \<Rightarrow> vx_status \<times> vx_type"
  vxQueryParameter :: "nat \<Rightarrow> vx_status \<times> nat"
  vxQueryImage_format :: "nat \<Rightarrow> vx_status \<times> vx_df_image"
  vxQueryImage_height :: "nat \<Rightarrow> vx_status \<times> 32 word"
  vxQueryImage_width :: "nat \<Rightarrow> vx_status \<times> 32 word"
  vxSetMetaFormatAttribute :: "vx_meta_attribute \<Rightarrow> vx_status"

text \<open>
  \<^verbatim>\<open>STATUS_ERROR_CHECK(call)\<close>: when the call's status is not \<^verbatim>\<open>VX_SUCCESS\<close> the function
  returns it at once, with the meta formats as they are; otherwise it goes on. The
  macro's header is not among the sources; this is the early return its name says.
\<close>

definition STATUS_ERROR_CHECK :: "vx_status \<Rightarrow> 's \<Rightarrow> vx_status \<times> 's \<Rightarrow> vx_status \<times> 's" where
  "STATUS_ERROR_CHECK call s continue = (if call \<noteq> VX_SUCCESS then (call, s) else continue)"

text \<open>
  The eight scalar checks at the head of the function, one pair of lines each: the type
  query under \<^verbatim>\<open>STATUS_ERROR_CHECK\<close>, then \<^verbatim>\<open>VX_ERROR_INVALID_TYPE\<close> for a type other than the
  expected one. \<open>Some st\<close> is the function returning \<open>st\<close>.
\<close>

fun check_scalars :: "vx_framework \<Rightarrow> (nat \<times> vx_type) list \<Rightarrow> vx_status option" where
  "check_scalars fw [] = None"
| "check_scalars fw ((k, expected) # rest) =
     (if fst (vxQueryScalar fw k) \<noteq> VX_SUCCESS then Some (fst (vxQueryScalar fw k))
      else if snd (vxQueryScalar fw k) \<noteq> expected then Some VX_ERROR_INVALID_TYPE
      else check_scalars fw rest)"

text \<open>
  The rest of the function. \<^verbatim>\<open>status\<close> is set by the format test and returned at the very
  end; the test itself does not return.
\<close>

definition validateWarpAffine ::
  "vx_framework \<Rightarrow> (nat \<Rightarrow> vx_meta_format) \<Rightarrow> vx_status \<times> (nat \<Rightarrow> vx_meta_format)" where
  "validateWarpAffine fw metas =
     (case check_scalars fw
             [(2, VX_TYPE_INT32), (3, VX_TYPE_INT32), (4, VX_TYPE_FLOAT32), (5, VX_TYPE_FLOAT32),
              (6, VX_TYPE_FLOAT32), (7, VX_TYPE_FLOAT32), (8, VX_TYPE_FLOAT32),
              (9, VX_TYPE_FLOAT32)] of
        Some st \<Rightarrow> (st, metas)
      | None \<Rightarrow>
          let image = vxQueryParameter fw 0;
              df_image = vxQueryImage_format fw (snd image);
              status = (if snd df_image \<noteq> VX_DF_IMAGE_U8 \<and> snd df_image \<noteq> VX_DF_IMAGE_RGB
                        then VX_ERROR_INVALID_VALUE else VX_SUCCESS);
              metas1 = metas(1 := (metas 1)\<lparr>meta_format := Some (snd df_image)\<rparr>);
              output_image = vxQueryParameter fw 1;
              height = vxQueryImage_height fw (snd output_image);
              metas2 = metas1(1 := (metas1 1)\<lparr>meta_height := Some (snd height)\<rparr>);
              width = vxQueryImage_width fw (snd output_image);
              metas3 = metas2(1 := (metas2 1)\<lparr>meta_width := Some (snd width)\<rparr>)
          in STATUS_ERROR_CHECK (fst image) metas
            (STATUS_ERROR_CHECK (fst df_image) metas
            (STATUS_ERROR_CHECK (vxSetMetaFormatAttribute fw VX_IMAGE_FORMAT) metas
            (STATUS_ERROR_CHECK (fst output_image) metas1
            (STATUS_ERROR_CHECK (fst height) metas1
            (STATUS_ERROR_CHECK (vxSetMetaFormatAttribute fw VX_IMAGE_HEIGHT) metas1
            (STATUS_ERROR_CHECK (fst width) metas2
            (STATUS_ERROR_CHECK (vxSetMetaFormatAttribute fw VX_IMAGE_WIDTH) metas2
            (status, metas3)))))))))"

subsection \<open>Vocabulary of the properties\<close>

text \<open>The sizes in bytes of the device buffers created in a trace, in order.\<close>

definition allocations :: "event list \<Rightarrow> nat list" where
  "allocations t = concat (map (\<lambda>e. case e of ClCreateBuffer n \<Rightarrow> [n] | _ \<Rightarrow> []) t)"

text \<open>
  For stating the raw byte copy: the number of bytes of one image of a given
  descriptor, and the destination buffer in which image \<open>k\<close> of the output list
  occupies the bytes from \<open>k * s\<close> up to \<open>(k + 1) * s\<close> and every other byte is as before.
\<close>

definition image_bytes :: "ImageInfo \<Rightarrow> nat" where
  "image_bytes i = width i * height_batch i * color_plane_count i"

definition images_laid_out :: "MasterGraph \<Rightarrow> (nat \<Rightarrow> 8 word) \<Rightarrow> (nat \<Rightarrow> 8 word)" where
  "images_laid_out mg out_ptr =
     (\<lambda>a. if a < length (output_images mg) * image_bytes (output_image_info mg)
          then buffer (images mg (output_images mg ! (a div image_bytes (output_image_info mg))))
                 (a mod image_bytes (output_image_info mg))
          else out_ptr a)"

subsection \<open>Concrete instances\<close>

text \<open>
  An environment in which every external call succeeds, and an object with no loader
  modules, nodes or images; the instances below are variations of the two.
\<close>

definition blank_info :: ImageInfo where
  "blank_info = \<lparr>width = 0, height_batch = 0, color_plane_count = 0, color_format = U8,
     mem_type = HOST, type = UNKNOWN\<rparr>"

definition quiet_env :: env where
  "quiet_env = \<lparr>vxCreateContext = (\<lambda>t. Some 1), vxGetStatus = (\<lambda>t. 0),
     vxSetContextAttribute = (\<lambda>t. 0), vxLoadKernels = (\<lambda>n t. 0), init_ocl = (\<lambda>t. None),
     load_next = (\<lambda>l t. LoaderModuleStatus_OK), loader_count = (\<lambda>l t. 0),
     graph_process = (\<lambda>t. None), graph_create = (\<lambda>t. Inr 1),
     create_virtual = (\<lambda>i. i\<lparr>info := (info i)\<lparr>type := VIRTUAL\<rparr>\<rparr>),
     node_create = (\<lambda>n t. None), graph_verify = (\<lambda>t. None),
     clCreateBuffer = (\<lambda>n t. (Some 1, 0)), vxReleaseContext = (\<lambda>c t. (0, None)),
     copy_data = (\<lambda>i d s out. out), clSetKernelArg = (\<lambda>n t. 0),
     clEnqueueNDRangeKernel = (\<lambda>t. 0),
     clEnqueueReadBuffer = (\<lambda>t. 0)\<rparr>"

definition fresh_graph :: MasterGraph where
  "fresh_graph = \<lparr>output_tensor = None, graph = None, affinity = CPU, gpu_id = 0,
     batch_size = 1, cpu_threads = 1, graph_mem_type = HOST, vx_context = Some 1,
     graph_verfied = False, loader_modules = [], nodes = [], output_images = [],
     internal_images = [], output_image_info = blank_info,
     images = (\<lambda>a. \<lparr>info = blank_info, buffer = (\<lambda>i. 0)\<rparr>), trace = []\<rparr>"

text \<open>
  A built object with three loader modules and two nodes, and an environment whose
  loader module 1 fails.
\<close>

definition built_graph :: MasterGraph where
  "built_graph = fresh_graph\<lparr>graph := Some 1, graph_verfied := True,
     loader_modules := [0, 1, 2],
     nodes := [\<lparr>node_id = 10, node_output = []\<rparr>, \<lparr>node_id = 11, node_output = []\<rparr>]\<rparr>"

definition failing_loader_env :: env where
  "failing_loader_env =
     quiet_env\<lparr>load_next := (\<lambda>l t. if l = 1 then LoaderModuleStatus_FAILED 3
                                   else LoaderModuleStatus_OK)\<rparr>"

text \<open>Two output images of different widths.\<close>

definition mismatched_graph :: MasterGraph where
  "mismatched_graph = fresh_graph\<lparr>output_images := [0, 1],
     images := (\<lambda>a. \<lparr>info = blank_info\<lparr>width := (if a = 0 then 2 else 3)\<rparr>,
                     buffer = (\<lambda>i. 0)\<rparr>)\<rparr>"

text \<open>
  An object in device memory that owns images and a tensor, an object in host memory
  with the same images (two output images of 2 by 1 pixels and 3 planes; byte \<open>i\<close> of the
  image at address \<open>a\<close> is \<open>10 * a + i\<close>), and an environment whose \<^verbatim>\<open>copy_data\<close> copies the
  image's bytes.
\<close>

definition device_graph :: MasterGraph where
  "device_graph = fresh_graph\<lparr>output_tensor := Some 5, graph := Some 1,
     output_images := [7, 9], internal_images := [8],
     output_image_info := blank_info\<lparr>width := 2, height_batch := 1, color_plane_count := 3,
                                      mem_type := OCL\<rparr>,
     images := (\<lambda>a. \<lparr>info = blank_info\<lparr>width := 2, height_batch := 1,
                                          color_plane_count := 3, mem_type := OCL\<rparr>,
                     buffer = (\<lambda>i. word_of_nat (10 * a + i))\<rparr>)\<rparr>"

definition host_graph :: MasterGraph where
  "host_graph = fresh_graph\<lparr>output_images := [7, 9],
     output_image_info := blank_info\<lparr>width := 2, height_batch := 1, color_plane_count := 3\<rparr>,
     images := (\<lambda>a. \<lparr>info = blank_info\<lparr>width := 2, height_batch := 1,
                                          color_plane_count := 3\<rparr>,
                     buffer = (\<lambda>i. word_of_nat (10 * a + i))\<rparr>)\<rparr>"

definition copying_env :: env where
  "copying_env = quiet_env\<lparr>copy_data := (\<lambda>i d s out.
     memcpy out d (buffer i)
       (width (info i) * height_batch (info i) * color_plane_count (info i)))\<rparr>"

text \<open>
  Float operations for the instances: the values are integers, on which the three
  operations are exact.
\<close>

definition exact_ops :: "int float_ops" where
  "exact_ops = \<lparr>fadd = (+), fmul = (*), of_uchar = uint\<rparr>"

text \<open>
  A node whose scalar parameters have the registered types, whose input image (handle
  0) has a given format and whose output image (handle 1) is 480 by 640.
\<close>

definition warp_node :: "vx_df_image \<Rightarrow> vx_framework" where
  "warp_node fmt =
     \<lparr>vxQueryScalar = (\<lambda>k. (VX_SUCCESS, if k < 4 then VX_TYPE_INT32 else VX_TYPE_FLOAT32)),
      vxQueryParameter = (\<lambda>k. (VX_SUCCESS, k)),
      vxQueryImage_format = (\<lambda>i. (VX_SUCCESS, fmt)),
      vxQueryImage_height = (\<lambda>i. (VX_SUCCESS, 480)),
      vxQueryImage_width = (\<lambda>i. (VX_SUCCESS, 640)),
      vxSetMetaFormatAttribute = (\<lambda>a. VX_SUCCESS)\<rparr>"

definition no_meta :: "nat \<Rightarrow> vx_meta_format" where
  "no_meta = (\<lambda>k. \<lparr>meta_format = None, meta_height = None, meta_width = None\<rparr>)"

section \<open>Properties\<close>

subsection \<open>The unimplemented device overload of \<^verbatim>\<open>copy_output\<close>\<close>

text \<open>
  Claim C9. For every object state, device handle and size, the \<^verbatim>\<open>cl_mem\<close> overload of
  \<^verbatim>\<open>copy_output\<close> returns \<^verbatim>\<open>NOT_IMPLEMENTED\<close> and leaves the whole object as it was: no
  member changes, and no call is added to the trace, the start and end of the
  conversion timer included.
\<close>

theorem copy_output_cl_mem_not_implemented:
  "copy_output_cl_mem mg out_ptr out_size = (Status_NOT_IMPLEMENTED, mg)"
  by (simp add: copy_output_cl_mem_def)

subsection \<open>The smallest remaining count over the loader modules\<close>

lemma to_int_id: "0 \<le> v \<Longrightarrow> v < 2 ^ 31 \<Longrightarrow> to_int v = v"
  by (simp add: to_int_def)

lemma int_to_size_t_nonneg: "0 \<le> v \<Longrightarrow> v < 2 ^ 31 \<Longrightarrow> int_to_size_t v = nat v"
  by (simp add: int_to_size_t_def)

text \<open>Once \<open>ret\<close> has left the sentinel, the loop folds \<open>min\<close> over the counts.\<close>

lemma remaining_loop_min:
  "(\<forall>l \<in> set ls. 0 \<le> loader_count ev l (trace mg) \<and> loader_count ev l (trace mg) < 2 ^ 31)
   \<Longrightarrow> 0 \<le> ret
   \<Longrightarrow> remaining_loop ev mg ls ret = Min (insert ret ((\<lambda>l. loader_count ev l (trace mg)) ` set ls))"
proof (induction ls arbitrary: ret)
  case Nil
  then show ?case by simp
next
  case (Cons l ls)
  let ?c = "loader_count ev l (trace mg)"
  have c: "0 \<le> ?c" "?c < 2 ^ 31" using Cons.prems by auto
  have t: "to_int ?c = ?c" using c by (rule to_int_id)
  have step: "remaining_loop ev mg (l # ls) ret = remaining_loop ev mg ls (min ?c ret)"
    using Cons.prems(2) by (auto simp add: t min_def Let_def)
  have "0 \<le> min ?c ret" using c Cons.prems(2) by simp
  then have "remaining_loop ev mg ls (min ?c ret)
      = Min (insert (min ?c ret) ((\<lambda>l. loader_count ev l (trace mg)) ` set ls))"
    using Cons.IH Cons.prems(1) by simp
  also have "\<dots> = Min (insert ret ((\<lambda>l. loader_count ev l (trace mg)) ` set (l # ls)))"
  proof (cases "ls = []")
    case True
    then show ?thesis by (simp add: min.commute)
  next
    case False
    then show ?thesis by (simp add: min.assoc min.left_commute min.commute)
  qed
  finally show ?case using step by simp
qed

lemma remaining_loop_first:
  assumes "\<forall>l \<in> set (l0 # ls). 0 \<le> loader_count ev l (trace mg) \<and> loader_count ev l (trace mg) < 2 ^ 31"
  shows "remaining_loop ev mg (l0 # ls) (- 1) = Min ((\<lambda>l. loader_count ev l (trace mg)) ` set (l0 # ls))"
proof -
  let ?c = "loader_count ev l0 (trace mg)"
  have c: "0 \<le> ?c" "?c < 2 ^ 31" using assms by auto
  have "remaining_loop ev mg (l0 # ls) (- 1) = remaining_loop ev mg ls ?c"
    using c by (simp add: to_int_id)
  also have "\<dots> = Min (insert ?c ((\<lambda>l. loader_count ev l (trace mg)) ` set ls))"
    using assms c by (intro remaining_loop_min) auto
  finally show ?thesis by simp
qed

text \<open>
  Claim C10, as amended. With no loader module, \<^verbatim>\<open>remaining_images_count\<close> returns the
  \<^verbatim>\<open>int\<close> \<open>-1\<close> converted to \<^verbatim>\<open>size_t\<close>, the largest \<^verbatim>\<open>size_t\<close> value \<open>2 ^ 64 - 1\<close>, not 0.
  With loader modules whose \<^verbatim>\<open>count()\<close> values all lie in \<open>0 \<le> count < 2 ^ 31\<close> (they
  survive the conversion to \<^verbatim>\<open>int\<close> and none is the sentinel), it returns the minimum
  of the counts.
\<close>

theorem remaining_images_count_min:
  "(loader_modules mg = [] \<longrightarrow> remaining_images_count ev mg = 2 ^ 64 - 1) \<and>
   (loader_modules mg \<noteq> [] \<longrightarrow>
    (\<forall>l \<in> set (loader_modules mg).
       0 \<le> loader_count ev l (trace mg) \<and> loader_count ev l (trace mg) < 2 ^ 31) \<longrightarrow>
    remaining_images_count ev mg =
      nat (Min ((\<lambda>l. loader_count ev l (trace mg)) ` set (loader_modules mg))))"
proof (intro conjI impI)
  assume "loader_modules mg = []"
  then show "remaining_images_count ev mg = 2 ^ 64 - 1"
    by (simp add: remaining_images_count_def int_to_size_t_def)
next
  assume ne: "loader_modules mg \<noteq> []"
    and rng: "\<forall>l \<in> set (loader_modules mg).
       0 \<le> loader_count ev l (trace mg) \<and> loader_count ev l (trace mg) < 2 ^ 31"
  let ?cnt = "\<lambda>l. loader_count ev l (trace mg)"
  obtain l0 ls where ls: "loader_modules mg = l0 # ls"
    using ne by (cases "loader_modules mg") auto
  have loop: "remaining_loop ev mg (loader_modules mg) (- 1) = Min (?cnt ` set (loader_modules mg))"
    unfolding ls using rng unfolding ls by (rule remaining_loop_first)
  have "Min (?cnt ` set (loader_modules mg)) \<in> ?cnt ` set (loader_modules mg)"
    using ne by (intro Min_in) auto
  then have "0 \<le> Min (?cnt ` set (loader_modules mg))" "Min (?cnt ` set (loader_modules mg)) < 2 ^ 31"
    using rng by auto
  then show "remaining_images_count ev mg = nat (Min (?cnt ` set (loader_modules mg)))"
    by (simp add: remaining_images_count_def loop int_to_size_t_nonneg)
qed

text \<open>
  The theorem at two inputs: no loader module, and two loader modules with 7 and 3
  images left.
\<close>

theorem remaining_images_count_min_witness:
  "remaining_images_count quiet_env fresh_graph = 2 ^ 64 - 1 \<and>
   remaining_images_count (quiet_env\<lparr>loader_count := (\<lambda>l t. if l = 0 then 7 else 3)\<rparr>)
     (fresh_graph\<lparr>loader_modules := [0, 1]\<rparr>) = 3"
proof -
  let ?E = "quiet_env\<lparr>loader_count := (\<lambda>l t. if l = 0 then 7 else 3)\<rparr>"
  let ?M = "fresh_graph\<lparr>loader_modules := [0, 1]\<rparr>"
  have a: "remaining_images_count quiet_env fresh_graph = 2 ^ 64 - 1"
    using remaining_images_count_min [of fresh_graph quiet_env]
    by (simp add: fresh_graph_def)
  have b: "remaining_images_count ?E ?M = 3"
    using remaining_images_count_min [of ?M ?E]
    by (simp add: fresh_graph_def quiet_env_def)
  show ?thesis using a b by simp
qed

text \<open>
  The claim as first stated, the minimum for any counts, fails where a count is the
  sentinel once it is stored in the \<^verbatim>\<open>int\<close>. Two loader modules report 5 and 4294967295
  images: the second count becomes \<open>-1\<close>, which is smaller than 5 and is returned as
  \<open>2 ^ 64 - 1\<close>, while the minimum of the two counts is 5. And were \<^verbatim>\<open>count()\<close> to return a
  signed \<open>-1\<close> followed by 5, the loop starts over at the second module and returns 5,
  while the minimum is \<open>-1\<close>.
\<close>

theorem remaining_images_count_sentinel_counterexample:
  "loader_modules (fresh_graph\<lparr>loader_modules := [0, 1]\<rparr>) \<noteq> [] \<and>
   remaining_images_count (quiet_env\<lparr>loader_count := (\<lambda>l t. if l = 0 then 5 else 4294967295)\<rparr>)
     (fresh_graph\<lparr>loader_modules := [0, 1]\<rparr>) = 2 ^ 64 - 1 \<and>
   int_to_size_t (Min ((\<lambda>l. if l = 0 then 5 else 4294967295) ` set [0, 1 :: nat])) = 5 \<and>
   remaining_images_count (quiet_env\<lparr>loader_count := (\<lambda>l t. if l = 0 then - 1 else 5)\<rparr>)
     (fresh_graph\<lparr>loader_modules := [0, 1]\<rparr>) = 5 \<and>
   int_to_size_t (Min ((\<lambda>l. if l = 0 then - 1 else 5) ` set [0, 1 :: nat])) = 2 ^ 64 - 1"
  by (simp add: remaining_images_count_def fresh_graph_def quiet_env_def to_int_def
      int_to_size_t_def)

subsection \<open>The order of calls in \<^verbatim>\<open>run\<close>, and the checks of \<^verbatim>\<open>build\<close>\<close>

lemma update_loop_trace:
  "update_loop ns mg = mg\<lparr>trace := trace mg @ map (\<lambda>n. NodeUpdateParameters (node_id n)) ns\<rparr>"
  by (induction ns arbitrary: mg) (simp_all add: emit_def)

lemma load_loop_cases:
  "load_loop ev ls mg = (r, mg') \<Longrightarrow>
     (r = Inr () \<and> mg' = mg\<lparr>trace := trace mg @ map (\<lambda>l. LoadNext l LoaderModuleStatus_OK) ls\<rparr>) \<or>
     (r = Inl (Thrown [Str ''Loader module failed to laod next batch of images'']) \<and>
      (\<exists>k st. k < length ls \<and> st \<noteq> LoaderModuleStatus_OK \<and>
         mg' = mg\<lparr>trace := trace mg @ map (\<lambda>l. LoadNext l LoaderModuleStatus_OK) (take k ls)
                               @ [LoadNext (ls ! k) st]\<rparr>))"
proof (induction ls arbitrary: mg)
  case Nil
  then show ?case by simp
next
  case (Cons l ls)
  let ?st = "load_next ev l (trace mg)"
  let ?mg = "emit (LoadNext l ?st) mg"
  show ?case
  proof (cases "?st = LoaderModuleStatus_OK")
    case False
    then have "r = Inl (Thrown [Str ''Loader module failed to laod next batch of images''])"
      and "mg' = ?mg"
      using Cons.prems by (simp_all add: Let_def)
    then have "r = Inl (Thrown [Str ''Loader module failed to laod next batch of images'']) \<and>
      (0 < length (l # ls) \<and> ?st \<noteq> LoaderModuleStatus_OK \<and>
         mg' = mg\<lparr>trace := trace mg @ map (\<lambda>l. LoadNext l LoaderModuleStatus_OK) (take 0 (l # ls))
                               @ [LoadNext ((l # ls) ! 0) ?st]\<rparr>)"
      using False by (simp add: emit_def)
    then show ?thesis by blast
  next
    case True
    then have rec: "load_loop ev ls ?mg = (r, mg')"
      using Cons.prems by (simp add: Let_def)
    from Cons.IH [OF rec] show ?thesis
    proof
      assume "r = Inr () \<and> mg' = ?mg\<lparr>trace := trace ?mg @ map (\<lambda>l. LoadNext l LoaderModuleStatus_OK) ls\<rparr>"
      then show ?thesis using True by (simp add: emit_def)
    next
      assume a: "r = Inl (Thrown [Str ''Loader module failed to laod next batch of images'']) \<and>
        (\<exists>k st. k < length ls \<and> st \<noteq> LoaderModuleStatus_OK \<and>
          mg' = ?mg\<lparr>trace := trace ?mg @ map (\<lambda>l. LoadNext l LoaderModuleStatus_OK) (take k ls)
                               @ [LoadNext (ls ! k) st]\<rparr>)"
      then obtain k st where k: "k < length ls" "st \<noteq> LoaderModuleStatus_OK"
        "mg' = ?mg\<lparr>trace := trace ?mg @ map (\<lambda>l. LoadNext l LoaderModuleStatus_OK) (take k ls)
                               @ [LoadNext (ls ! k) st]\<rparr>" by blast
      have "Suc k < length (l # ls) \<and> st \<noteq> LoaderModuleStatus_OK \<and>
         mg' = mg\<lparr>trace := trace mg @ map (\<lambda>l. LoadNext l LoaderModuleStatus_OK) (take (Suc k) (l # ls))
                               @ [LoadNext ((l # ls) ! Suc k) st]\<rparr>"
        using k True by (simp add: emit_def)
      then show ?thesis using a by blast
    qed
  qed
qed

lemma run_not_verified_t:
  "\<not> graph_verfied mg \<Longrightarrow> run ev mg = (Inl (Thrown [Str ''Graph not verified'']), mg)"
  by (simp add: run_def)

lemma run_unfold:
  "graph_verfied mg \<Longrightarrow>
   run ev mg =
     (case load_loop ev (loader_modules mg)
             (mg\<lparr>trace := trace mg @ [RenewParameters, TimerStart ProcessTime]\<rparr>) of
        (Inl e, mg3) \<Rightarrow> (Inl e, mg3)
      | (Inr u, mg3) \<Rightarrow>
          (case process ev mg3 of
             (Inl e, mg4) \<Rightarrow> (Inl e, mg4)
           | (Inr u, mg4) \<Rightarrow>
               (Inr Status_OK,
                mg4\<lparr>trace := trace mg4 @ map (\<lambda>n. NodeUpdateParameters (node_id n)) (nodes mg4)
                        @ [TimerEnd ProcessTime]\<rparr>)))"
  by (simp add: run_def Let_def emit_def update_parameters_def update_loop_trace
      split: prod.splits sum.splits)

lemma process_cases:
  "process ev mg = (r, mg') \<Longrightarrow>
     (r = Inr () \<and> graph mg \<noteq> None \<and> mg' = mg\<lparr>trace := trace mg @ [GraphProcess]\<rparr>) \<or>
     (\<exists>e. r = Inl e \<and> (mg' = mg \<or> mg' = mg\<lparr>trace := trace mg @ [GraphProcess]\<rparr>))"
  by (auto simp: process_def emit_def split: option.splits)

text \<open>
  Claim C2. Every call of \<^verbatim>\<open>run\<close> that returns normally returns \<^verbatim>\<open>OK\<close>, changes nothing
  of the object but the trace, and adds to the trace exactly this sequence: one
  \<^verbatim>\<open>renew_parameters\<close>, the start of the process timer, one \<^verbatim>\<open>load_next\<close> on every loader
  module in list order (each answering \<^verbatim>\<open>OK\<close>), the execution of the graph, one
  \<^verbatim>\<open>update_parameters\<close> on every node in list order, and the end of the process timer.
  It holds for any number of nodes and of loader modules.
\<close>

theorem run_sequence:
  assumes "run ev mg = (Inr st, mg')"
  shows "st = Status_OK \<and>
     mg' = mg\<lparr>trace := trace mg @ [RenewParameters, TimerStart ProcessTime]
                  @ map (\<lambda>l. LoadNext l LoaderModuleStatus_OK) (loader_modules mg)
                  @ [GraphProcess]
                  @ map (\<lambda>n. NodeUpdateParameters (node_id n)) (nodes mg)
                  @ [TimerEnd ProcessTime]\<rparr>"
proof -
  have v: "graph_verfied mg"
    using assms by (cases "graph_verfied mg") (simp_all add: run_def)
  let ?m2 = "mg\<lparr>trace := trace mg @ [RenewParameters, TimerStart ProcessTime]\<rparr>"
  obtain r3 m3 where l: "load_loop ev (loader_modules mg) ?m2 = (r3, m3)"
    by (cases "load_loop ev (loader_modules mg) ?m2") auto
  obtain r4 m4 where p: "process ev m3 = (r4, m4)"
    by (cases "process ev m3") auto
  have r3: "r3 = Inr ()"
    using assms l unfolding run_unfold [OF v] by (cases r3) auto
  have r4: "r4 = Inr ()"
    using assms l p r3 unfolding run_unfold [OF v] by (cases r4) auto
  have m3: "m3 = ?m2\<lparr>trace := trace ?m2 @ map (\<lambda>l. LoadNext l LoaderModuleStatus_OK) (loader_modules mg)\<rparr>"
    using load_loop_cases [OF l] r3 by simp
  have m4: "m4 = m3\<lparr>trace := trace m3 @ [GraphProcess]\<rparr>"
    using process_cases [OF p] r4 by auto
  show ?thesis
    using assms l p r3 r4 unfolding run_unfold [OF v] by (simp add: m3 m4)
qed

text \<open>
  Claim C7. When \<^verbatim>\<open>run\<close> is called on a verified object and one of the \<^verbatim>\<open>load_next\<close> calls
  it makes answers a status other than \<^verbatim>\<open>OK\<close>, the call throws the loader error, the
  calls it made include neither the execution of the graph nor any node's
  \<^verbatim>\<open>update_parameters\<close>, and the object is left as it was but for the trace; the
  verified-flag in particular is still true, so \<^verbatim>\<open>run\<close> may be called again.
\<close>

theorem run_loader_failure:
  assumes v: "graph_verfied mg"
    and run: "run ev mg = (r, mg')"
    and ev: "LoadNext l st \<in> set (drop (length (trace mg)) (trace mg'))"
    and st: "st \<noteq> LoaderModuleStatus_OK"
  shows "r = Inl (Thrown [Str ''Loader module failed to laod next batch of images'']) \<and>
     GraphProcess \<notin> set (drop (length (trace mg)) (trace mg')) \<and>
     (\<forall>n. NodeUpdateParameters n \<notin> set (drop (length (trace mg)) (trace mg'))) \<and>
     graph_verfied mg' \<and> mg' = mg\<lparr>trace := trace mg'\<rparr>"
proof -
  let ?m2 = "mg\<lparr>trace := trace mg @ [RenewParameters, TimerStart ProcessTime]\<rparr>"
  let ?ok = "map (\<lambda>l. LoadNext l LoaderModuleStatus_OK)"
  obtain r3 m3 where l: "load_loop ev (loader_modules mg) ?m2 = (r3, m3)"
    by (cases "load_loop ev (loader_modules mg) ?m2") auto
  obtain r4 m4 where p: "process ev m3 = (r4, m4)"
    by (cases "process ev m3") auto
  from load_loop_cases [OF l] show ?thesis
  proof
    assume a: "r3 = Inr () \<and> m3 = ?m2\<lparr>trace := trace ?m2 @ ?ok (loader_modules mg)\<rparr>"
    then have m3: "trace m3 = trace mg @ [RenewParameters, TimerStart ProcessTime] @ ?ok (loader_modules mg)"
      by simp
    have "\<exists>tl. trace mg' = trace m3 @ tl \<and> (\<forall>l st. LoadNext l st \<notin> set tl)"
    proof (cases r4)
      case (Inl e)
      then have "mg' = m4" using run l p a unfolding run_unfold [OF v] by simp
      moreover have "m4 = m3 \<or> m4 = m3\<lparr>trace := trace m3 @ [GraphProcess]\<rparr>"
        using process_cases [OF p] Inl by auto
      ultimately have "trace mg' = trace m3 @ [] \<or> trace mg' = trace m3 @ [GraphProcess]"
        by auto
      then show ?thesis by fastforce
    next
      case (Inr u)
      then have "mg' = m4\<lparr>trace := trace m4 @ map (\<lambda>n. NodeUpdateParameters (node_id n)) (nodes m4)
                        @ [TimerEnd ProcessTime]\<rparr>"
        using run l p a unfolding run_unfold [OF v] by simp
      moreover have "m4 = m3\<lparr>trace := trace m3 @ [GraphProcess]\<rparr>"
        using process_cases [OF p] Inr by auto
      ultimately have "trace mg' = trace m3 @ ([GraphProcess]
          @ map (\<lambda>n. NodeUpdateParameters (node_id n)) (nodes m4) @ [TimerEnd ProcessTime])"
        by simp
      then show ?thesis by fastforce
    qed
    then obtain tl where tl: "trace mg' = trace m3 @ tl" "\<forall>l st. LoadNext l st \<notin> set tl"
      by blast
    have "drop (length (trace mg)) (trace mg')
        = [RenewParameters, TimerStart ProcessTime] @ ?ok (loader_modules mg) @ tl"
      by (simp add: tl m3)
    then have False using ev st tl(2) by auto
    then show ?thesis ..
  next
    assume a: "r3 = Inl (Thrown [Str ''Loader module failed to laod next batch of images'']) \<and>
      (\<exists>k st. k < length (loader_modules mg) \<and> st \<noteq> LoaderModuleStatus_OK \<and>
         m3 = ?m2\<lparr>trace := trace ?m2 @ ?ok (take k (loader_modules mg))
                               @ [LoadNext (loader_modules mg ! k) st]\<rparr>)"
    then obtain k st' where k: 
      "m3 = ?m2\<lparr>trace := trace ?m2 @ ?ok (take k (loader_modules mg))
                               @ [LoadNext (loader_modules mg ! k) st']\<rparr>" by blast
    have res: "r = Inl (Thrown [Str ''Loader module failed to laod next batch of images''])" "mg' = m3"
      using run l a unfolding run_unfold [OF v] by simp_all
    have d: "drop (length (trace mg)) (trace mg')
        = [RenewParameters, TimerStart ProcessTime] @ ?ok (take k (loader_modules mg))
          @ [LoadNext (loader_modules mg ! k) st']"
      by (simp add: res k)
    show ?thesis
      unfolding d using res v by (auto simp: k)
  qed
qed

lemma delete_images_trace:
  "delete_images is mg = mg\<lparr>trace := trace mg @ map DeleteImage is\<rparr>"
  by (induction "is" arbitrary: mg) (simp_all add: emit_def)

lemma release_not_verified: "\<not> graph_verfied (release ev mg)"
  by (simp add: release_def Let_def delete_images_trace release_context_def emit_def
      deallocate_output_tensor_def split: option.splits)

lemma create_virtual_images_verfied [simp]:
  "graph_verfied (create_virtual_images ev is mg) = graph_verfied mg"
  by (induction "is" arbitrary: mg) (simp_all add: emit_def)

lemma create_nodes_verfied:
  "create_nodes ev ns mg = (r, mg') \<Longrightarrow> graph_verfied mg' = graph_verfied mg"
  by (induction ns arbitrary: mg) (auto simp: Let_def emit_def split: option.splits)

lemma create_single_graph_verfied:
  "create_single_graph ev mg = (r, mg') \<Longrightarrow> graph_verfied mg' = graph_verfied mg"
  by (auto simp: create_single_graph_def emit_def
      split: sum.splits prod.splits option.splits dest!: create_nodes_verfied)

lemma allocate_output_tensor_verfied:
  "allocate_output_tensor ev mg = (r, mg') \<Longrightarrow> graph_verfied mg' = graph_verfied mg"
  by (auto simp: allocate_output_tensor_def Let_def emit_def split: if_splits)

lemma build_verfied:
  "build ev mg = (r, mg') \<Longrightarrow> graph_verfied mg' = (r = Inr Status_OK)"
  by (auto simp: build_def Let_def
      split: list.splits if_splits prod.splits sum.splits
      dest!: create_single_graph_verfied allocate_output_tensor_verfied)

text \<open>
  Claim C4. \<^verbatim>\<open>build\<close> throws when the list of output images is empty, and when two of the
  output images have descriptors that differ. In both cases the object it leaves has
  the verified-flag false and, but for the cached descriptor of the first output image
  in the second case, is the object it was given: the trace is the same, so no buffer
  was created, no graph was made and nothing was compiled, and \<^verbatim>\<open>_output_tensor\<close> and
  \<^verbatim>\<open>_graph\<close> are what they were.
\<close>

theorem build_rejects:
  "(output_images mg = [] \<longrightarrow>
      build ev mg = (Inl (Thrown [Str ''No output images are there, cannot create the pipeline'']),
                     mg\<lparr>graph_verfied := False\<rparr>)) \<and>
   ((\<exists>p \<in> set (output_images mg). \<exists>q \<in> set (output_images mg).
        info (images mg p) \<noteq> info (images mg q)) \<longrightarrow>
      build ev mg = (Inl (Thrown [Str ''Dimension of the output images do not match'']),
                     mg\<lparr>graph_verfied := False,
                        output_image_info := info (images mg (hd (output_images mg)))\<rparr>))"
proof (intro conjI impI)
  assume "output_images mg = []"
  then show "build ev mg = (Inl (Thrown [Str ''No output images are there, cannot create the pipeline'']),
                     mg\<lparr>graph_verfied := False\<rparr>)"
    by (simp add: build_def)
next
  assume d: "\<exists>p \<in> set (output_images mg). \<exists>q \<in> set (output_images mg).
        info (images mg p) \<noteq> info (images mg q)"
  then obtain front others where o: "output_images mg = front # others"
    by (cases "output_images mg") auto
  have "\<exists>p \<in> set (output_images mg). info (images mg p) \<noteq> info (images mg front)"
    using d by metis
  then have "list_ex (\<lambda>output_image. \<not> (info (images mg output_image) = info (images mg front)))
      (output_images mg)"
    by (simp add: list_ex_iff)
  then show "build ev mg = (Inl (Thrown [Str ''Dimension of the output images do not match'']),
                     mg\<lparr>graph_verfied := False,
                        output_image_info := info (images mg (hd (output_images mg)))\<rparr>)"
    using o by (simp add: build_def Let_def)
qed

lemmas instance_defs = built_graph_def fresh_graph_def quiet_env_def failing_loader_env_def
  blank_info_def

lemma run_quiet_built:
  "run quiet_env built_graph =
     (Inr Status_OK,
      built_graph\<lparr>trace := [RenewParameters, TimerStart ProcessTime,
         LoadNext 0 LoaderModuleStatus_OK, LoadNext 1 LoaderModuleStatus_OK,
         LoadNext 2 LoaderModuleStatus_OK, GraphProcess,
         NodeUpdateParameters 10, NodeUpdateParameters 11, TimerEnd ProcessTime]\<rparr>)"
  by (simp add: run_def instance_defs emit_def process_def update_parameters_def Let_def)

text \<open>The sequence for three loader modules and two nodes, all calls succeeding.\<close>

theorem run_sequence_witness:
  "fst (run quiet_env built_graph) = Inr Status_OK \<and>
   trace (snd (run quiet_env built_graph)) =
     [RenewParameters, TimerStart ProcessTime,
      LoadNext 0 LoaderModuleStatus_OK, LoadNext 1 LoaderModuleStatus_OK,
      LoadNext 2 LoaderModuleStatus_OK, GraphProcess,
      NodeUpdateParameters 10, NodeUpdateParameters 11, TimerEnd ProcessTime]"
proof -
  have h: "run quiet_env built_graph = (Inr Status_OK, snd (run quiet_env built_graph))"
    by (simp add: run_quiet_built)
  have "trace (snd (run quiet_env built_graph)) =
     [RenewParameters, TimerStart ProcessTime,
      LoadNext 0 LoaderModuleStatus_OK, LoadNext 1 LoaderModuleStatus_OK,
      LoadNext 2 LoaderModuleStatus_OK, GraphProcess,
      NodeUpdateParameters 10, NodeUpdateParameters 11, TimerEnd ProcessTime]"
    using run_sequence [OF h] by (simp add: instance_defs)
  moreover have "fst (run quiet_env built_graph) = Inr Status_OK"
    by (simp add: run_quiet_built)
  ultimately show ?thesis by blast
qed

lemma run_failing_built:
  "run failing_loader_env built_graph =
     (Inl (Thrown [Str ''Loader module failed to laod next batch of images'']),
      built_graph\<lparr>trace := [RenewParameters, TimerStart ProcessTime,
         LoadNext 0 LoaderModuleStatus_OK, LoadNext 1 (LoaderModuleStatus_FAILED 3)]\<rparr>)"
  by (simp add: run_def instance_defs emit_def Let_def)

text \<open>Three loader modules, the second of which fails: the third is never asked.\<close>

theorem run_loader_failure_witness:
  "graph_verfied built_graph \<and>
   LoadNext 1 (LoaderModuleStatus_FAILED 3)
     \<in> set (drop (length (trace built_graph)) (trace (snd (run failing_loader_env built_graph)))) \<and>
   fst (run failing_loader_env built_graph) =
     Inl (Thrown [Str ''Loader module failed to laod next batch of images'']) \<and>
   GraphProcess \<notin> set (drop (length (trace built_graph))
                         (trace (snd (run failing_loader_env built_graph)))) \<and>
   graph_verfied (snd (run failing_loader_env built_graph))"
proof -
  have v: "graph_verfied built_graph" by (simp add: instance_defs)
  have r: "run failing_loader_env built_graph =
      (fst (run failing_loader_env built_graph), snd (run failing_loader_env built_graph))"
    by simp
  have e: "LoadNext 1 (LoaderModuleStatus_FAILED 3)
     \<in> set (drop (length (trace built_graph)) (trace (snd (run failing_loader_env built_graph))))"
    by (simp add: run_failing_built) (simp add: instance_defs)
  have s: "LoaderModuleStatus_FAILED 3 \<noteq> LoaderModuleStatus_OK" by simp
  show ?thesis using run_loader_failure [OF v r e s] v e by simp
qed

lemma construct_verfied:
  "construct ev mg = (r, mg') \<Longrightarrow> graph_verfied mg' = graph_verfied mg"
  by (auto simp: construct_def Let_def emit_def split: sum.splits if_splits option.splits)

lemma MasterGraph_new_not_verified:
  "MasterGraph_new ev default_info store history batch affin gpu threads = (r, mg)
   \<Longrightarrow> \<not> graph_verfied mg"
  by (auto simp: MasterGraph_new_def release_not_verified
      split: prod.splits sum.splits dest!: construct_verfied)

text \<open>
  Claim C3. Called while the verified-flag is false, \<^verbatim>\<open>run\<close> throws "Graph not verified"
  and leaves the object as it was, the trace included: no loader module and nothing of
  the backend has been called. The flag is false in a newly constructed object, after
  \<^verbatim>\<open>release\<close>, and after a \<^verbatim>\<open>build\<close> that failed.
\<close>

theorem run_requires_verified:
  "(\<not> graph_verfied mg \<longrightarrow> run ev mg = (Inl (Thrown [Str ''Graph not verified'']), mg)) \<and>
   (MasterGraph_new ev' default_info store history batch affin gpu threads = (None, mg0) \<longrightarrow>
      run ev mg0 = (Inl (Thrown [Str ''Graph not verified'']), mg0)) \<and>
   run ev (release ev' mg) = (Inl (Thrown [Str ''Graph not verified'']), release ev' mg) \<and>
   (build ev' mg = (Inl e, mg') \<longrightarrow>
      run ev mg' = (Inl (Thrown [Str ''Graph not verified'']), mg'))"
  using release_not_verified [of ev' mg] build_verfied [of ev' mg "Inl e" mg']
    MasterGraph_new_not_verified [of ev' default_info store history batch affin gpu threads None mg0]
  by (simp add: run_def)

lemma MasterGraph_new_quiet:
  "MasterGraph_new quiet_env blank_info (images fresh_graph) [] 4 CPU 0 2 =
     (None,
      fresh_graph\<lparr>batch_size := 4, cpu_threads := 2,
        trace := [VxCreateContext, VxGetStatus,
                  VxSetContextAttribute \<lparr>device_type = AGO_TARGET_AFFINITY_CPU, device_info = 0\<rparr>,
                  VxLoadKernels ''vx_rpp'', VxLoadKernels ''vx_media'']\<rparr>)"
  by (simp add: MasterGraph_new_def construct_def get_ago_affinity_info_def Let_def emit_def
      quiet_env_def fresh_graph_def)

text \<open>
  A fresh object; a newly constructed one, whose trace after the failed \<^verbatim>\<open>run\<close> still ends
  with the constructor's last call; a released one (whose trace holds the two calls of
  \<^verbatim>\<open>release\<close> and nothing from \<^verbatim>\<open>run\<close>); and one whose \<^verbatim>\<open>build\<close> failed for want of output
  images.
\<close>

theorem run_requires_verified_witness:
  "\<not> graph_verfied fresh_graph \<and>
   run quiet_env fresh_graph = (Inl (Thrown [Str ''Graph not verified'']), fresh_graph) \<and>
   fst (MasterGraph_new quiet_env blank_info (images fresh_graph) [] 4 CPU 0 2) = None \<and>
   fst (run quiet_env (snd (MasterGraph_new quiet_env blank_info (images fresh_graph) [] 4 CPU 0 2)))
     = Inl (Thrown [Str ''Graph not verified'']) \<and>
   last (trace (snd (run quiet_env
      (snd (MasterGraph_new quiet_env blank_info (images fresh_graph) [] 4 CPU 0 2)))))
     = VxLoadKernels ''vx_media'' \<and>
   run quiet_env (release quiet_env built_graph) =
     (Inl (Thrown [Str ''Graph not verified'']), release quiet_env built_graph) \<and>
   build quiet_env fresh_graph =
     (Inl (Thrown [Str ''No output images are there, cannot create the pipeline'']), fresh_graph) \<and>
   trace (snd (run quiet_env (release quiet_env built_graph))) = [GraphRelease, VxReleaseContext 1]"
proof -
  have a: "\<not> graph_verfied fresh_graph" by (simp add: instance_defs)
  have b: "build quiet_env fresh_graph =
     (Inl (Thrown [Str ''No output images are there, cannot create the pipeline'']), fresh_graph)"
    by (simp add: build_def instance_defs)
  have c: "trace (release quiet_env built_graph) = [GraphRelease, VxReleaseContext 1]"
    by (simp add: release_def release_context_def deallocate_output_tensor_def emit_def
        instance_defs Let_def)
  have n: "MasterGraph_new quiet_env blank_info (images fresh_graph) [] 4 CPU 0 2 =
      (None, snd (MasterGraph_new quiet_env blank_info (images fresh_graph) [] 4 CPU 0 2))"
    by (simp add: MasterGraph_new_quiet)
  have t: "trace (snd (MasterGraph_new quiet_env blank_info (images fresh_graph) [] 4 CPU 0 2)) =
      [VxCreateContext, VxGetStatus,
       VxSetContextAttribute \<lparr>device_type = AGO_TARGET_AFFINITY_CPU, device_info = 0\<rparr>,
       VxLoadKernels ''vx_rpp'', VxLoadKernels ''vx_media'']"
    by (simp add: MasterGraph_new_quiet)
  have r: "run quiet_env (snd (MasterGraph_new quiet_env blank_info (images fresh_graph) [] 4 CPU 0 2))
      = (Inl (Thrown [Str ''Graph not verified'']),
         snd (MasterGraph_new quiet_env blank_info (images fresh_graph) [] 4 CPU 0 2))"
    using run_requires_verified [where ev = quiet_env and ev' = quiet_env
        and default_info = blank_info and store = "images fresh_graph" and history = "[]"
        and batch = 4 and affin = CPU and gpu = 0 and threads = 2
        and ?mg0.0 = "snd (MasterGraph_new quiet_env blank_info (images fresh_graph) [] 4 CPU 0 2)"]
      n
    by blast
  have f: "fst (MasterGraph_new quiet_env blank_info (images fresh_graph) [] 4 CPU 0 2) = None"
    by (simp add: MasterGraph_new_quiet)
  have u: "run quiet_env fresh_graph = (Inl (Thrown [Str ''Graph not verified'']), fresh_graph)"
    using run_requires_verified [where mg = fresh_graph and ev = quiet_env] a by blast
  have v: "run quiet_env (release quiet_env built_graph) =
     (Inl (Thrown [Str ''Graph not verified'']), release quiet_env built_graph)"
    using run_requires_verified [where mg = built_graph and ev = quiet_env and ev' = quiet_env]
    by blast
  show ?thesis
    by (simp add: a b c r t f u v)
qed

text \<open>No output image; and two output images, 2 and 3 pixels wide.\<close>

theorem build_rejects_witness:
  "build quiet_env fresh_graph =
     (Inl (Thrown [Str ''No output images are there, cannot create the pipeline'']), fresh_graph) \<and>
   build quiet_env mismatched_graph =
     (Inl (Thrown [Str ''Dimension of the output images do not match'']),
      mismatched_graph\<lparr>output_image_info := blank_info\<lparr>width := 2\<rparr>\<rparr>) \<and>
   trace (snd (build quiet_env mismatched_graph)) = [] \<and>
   output_tensor (snd (build quiet_env mismatched_graph)) = None \<and>
   graph (snd (build quiet_env mismatched_graph)) = None"
proof -
  have a: "output_images fresh_graph = []" by (simp add: instance_defs)
  have b: "\<exists>p \<in> set (output_images mismatched_graph). \<exists>q \<in> set (output_images mismatched_graph).
        info (images mismatched_graph p) \<noteq> info (images mismatched_graph q)"
    by (auto simp: mismatched_graph_def instance_defs)
  have c: "build quiet_env fresh_graph =
     (Inl (Thrown [Str ''No output images are there, cannot create the pipeline'']), fresh_graph)"
    using build_rejects [of fresh_graph quiet_env] a by (simp add: instance_defs)
  have d: "build quiet_env mismatched_graph =
     (Inl (Thrown [Str ''Dimension of the output images do not match'']),
      mismatched_graph\<lparr>output_image_info := blank_info\<lparr>width := 2\<rparr>\<rparr>)"
    using build_rejects [of mismatched_graph quiet_env] b
    by (simp add: mismatched_graph_def instance_defs)
  show ?thesis
    unfolding c d by (simp add: mismatched_graph_def instance_defs)
qed

subsection \<open>Releasing twice\<close>

lemma release_trace:
  "trace (release ev mg) =
     trace mg
     @ (case graph mg of None \<Rightarrow> [] | Some g \<Rightarrow> [GraphRelease])
     @ (case vx_context mg of None \<Rightarrow> []
        | Some c \<Rightarrow> VxReleaseContext c #
            (if fst (vxReleaseContext ev c
                       (trace mg @ (case graph mg of None \<Rightarrow> [] | Some g \<Rightarrow> [GraphRelease]))) \<noteq> 0
             then [LogMessage [Str ''Failed to call vxReleaseContext '',
                     Num (fst (vxReleaseContext ev c
                       (trace mg @ (case graph mg of None \<Rightarrow> [] | Some g \<Rightarrow> [GraphRelease]))))]]
             else []))
     @ map DeleteImage (internal_images mg) @ map DeleteImage (output_images mg)
     @ (case output_tensor mg of None \<Rightarrow> []
        | Some t \<Rightarrow> if mem_type (output_image_info mg) = OCL then [ClReleaseMemObject t] else [])"
  by (simp add: release_def Let_def delete_images_trace release_context_def emit_def
      deallocate_output_tensor_def split: option.splits)

lemma release_keeps_images:
  "internal_images (release ev mg) = internal_images mg"
  "output_images (release ev mg) = output_images mg"
  "output_tensor (release ev mg) = output_tensor mg"
  "output_image_info (release ev mg) = output_image_info mg"
  by (simp_all add: release_def Let_def delete_images_trace release_context_def emit_def
      deallocate_output_tensor_def split: option.splits)

lemma count_list_DeleteImage:
  "p \<in> set xs \<Longrightarrow> 1 \<le> count_list (map DeleteImage xs) (DeleteImage p)"
  by (induction xs) auto

text \<open>
  \<^verbatim>\<open>release\<close> clears neither image list and does not reset \<^verbatim>\<open>_output_tensor\<close>, so a second
  \<^verbatim>\<open>release\<close> (or the destructor after a \<^verbatim>\<open>release\<close>) deletes every image again: between
  them the two calls delete each image of either list at least twice.
\<close>

lemma release_twice_deletes_twice:
  assumes "p \<in> set (internal_images mg) \<union> set (output_images mg)"
  shows "count_list (trace (release ev' (release ev mg))) (DeleteImage p)
       \<ge> count_list (trace mg) (DeleteImage p) + 2"
proof -
  have one: "1 \<le> count_list (map DeleteImage (internal_images mg) @ map DeleteImage (output_images mg))
      (DeleteImage p)"
    using assms count_list_DeleteImage [of p "internal_images mg"]
      count_list_DeleteImage [of p "output_images mg"] by auto
  show ?thesis
    using one
    by (simp add: release_trace [of ev' "release ev mg"] release_trace [of ev mg]
        release_keeps_images)
qed

text \<open>
  Claim C6, at an input where it fails. An object in device memory with output images
  7 and 9, internal image 8 and tensor 5 is released twice (the second call may be the
  destructor's). The first \<^verbatim>\<open>release\<close> releases the graph and the context, deletes the
  three images and releases the tensor; the second releases the graph again, deletes
  the same three images again and releases the same tensor again. Only the context,
  whose handle the first call cleared, is released once.
\<close>

theorem release_twice_double_free:
  "trace (destructor quiet_env (release quiet_env device_graph)) =
     [GraphRelease, VxReleaseContext 1, DeleteImage 8, DeleteImage 7, DeleteImage 9,
      ClReleaseMemObject 5,
      GraphRelease, DeleteImage 8, DeleteImage 7, DeleteImage 9, ClReleaseMemObject 5]"
  by (simp add: destructor_def release_trace release_keeps_images)
     (simp add: release_def release_context_def deallocate_output_tensor_def emit_def Let_def
        device_graph_def fresh_graph_def quiet_env_def blank_info_def)

subsection \<open>Sizes that do not wrap\<close>

lemma size_t_id: "n < 2 ^ 64 \<Longrightarrow> size_t n = n"
  by (simp add: size_t_def)

lemma size_t_prod3:
  assumes "w * h * c < 2 ^ 64"
  shows "size_t (size_t (w * h) * c) = w * h * c"
proof (cases "c = 0")
  case True
  then show ?thesis by (simp add: size_t_def)
next
  case False
  then have "w * h \<le> w * h * c" by simp
  then have "w * h < 2 ^ 64" using assms by linarith
  then show ?thesis using assms by (simp add: size_t_id)
qed

lemma size_t_prod4:
  assumes "w * h * c * b < 2 ^ 64"
  shows "size_t (size_t (size_t (w * h) * c) * b) = w * h * c * b"
proof (cases "b = 0")
  case True
  then show ?thesis by (simp add: size_t_def)
next
  case False
  then have "w * h * c \<le> w * h * c * b" by simp
  then have "w * h * c < 2 ^ 64" using assms by linarith
  then show ?thesis using assms by (simp add: size_t_prod3 size_t_id)
qed

subsection \<open>The raw byte copy\<close>

lemma copy_loop_host_bytes:
  "dest + length imgs * sz < 2 ^ 64 \<Longrightarrow>
   copy_loop_host imgs sz dest mg out_ptr a =
     (if dest \<le> a \<and> a < dest + length imgs * sz
      then buffer (images mg (imgs ! ((a - dest) div sz))) ((a - dest) mod sz)
      else out_ptr a)"
proof (induction imgs arbitrary: dest out_ptr)
  case Nil
  then show ?case by auto
next
  case (Cons i imgs)
  have b: "dest + sz + length imgs * sz < 2 ^ 64" using Cons.prems by simp
  then have s: "size_t (dest + sz) = dest + sz" by (simp add: size_t_id)
  have step: "copy_loop_host (i # imgs) sz dest mg out_ptr a =
      (if dest + sz \<le> a \<and> a < dest + sz + length imgs * sz
       then buffer (images mg (imgs ! ((a - (dest + sz)) div sz))) ((a - (dest + sz)) mod sz)
       else memcpy out_ptr dest (buffer (images mg i)) sz a)"
    by (simp only: copy_loop_host.simps s Cons.IH [OF b])
  consider "a < dest" | "dest \<le> a" "a < dest + sz" | "dest + sz \<le> a"
    by linarith
  then show ?case
  proof cases
    case 1
    then show ?thesis unfolding step by (simp add: memcpy_def)
  next
    case 2
    then have "(a - dest) div sz = 0" "(a - dest) mod sz = a - dest" by simp_all
    then show ?thesis unfolding step using 2 by (simp add: memcpy_def)
  next
    case 3
    show ?thesis
    proof (cases "sz = 0")
      case True
      then show ?thesis unfolding step using 3 by (simp add: memcpy_def)
    next
      case False
      have ge: "sz \<le> a - dest" using 3 by simp
      have d: "(a - dest) div sz = Suc ((a - (dest + sz)) div sz)"
        using False ge by (simp add: le_div_geq)
      have m: "(a - dest) mod sz = (a - (dest + sz)) mod sz"
        using ge by (simp add: le_mod_geq)
      show ?thesis unfolding step using 3 by (simp add: d m memcpy_def)
    qed
  qed
qed


lemma emit_fields [simp]:
  "images (emit e mg) = images mg"
  "output_images (emit e mg) = output_images mg"
  "internal_images (emit e mg) = internal_images mg"
  "output_image_info (emit e mg) = output_image_info mg"
  "output_tensor (emit e mg) = output_tensor mg"
  "graph_verfied (emit e mg) = graph_verfied mg"
  "loader_modules (emit e mg) = loader_modules mg"
  "nodes (emit e mg) = nodes mg"
  "graph (emit e mg) = graph mg"
  "vx_context (emit e mg) = vx_context mg"
  "trace (emit e mg) = trace mg @ [e]"
  by (simp_all add: emit_def)

lemma copy_loop_host_images:
  "images mg' = images mg \<Longrightarrow>
   copy_loop_host imgs sz dest mg' out_ptr = copy_loop_host imgs sz dest mg out_ptr"
  by (induction imgs arbitrary: dest out_ptr) simp_all

lemma copy_loop_host_emit [simp]:
  "copy_loop_host imgs sz dest (emit e mg) out_ptr = copy_loop_host imgs sz dest mg out_ptr"
  by (rule copy_loop_host_images) simp

text \<open>
  The device loop asks \<^verbatim>\<open>copy_data\<close> for image \<open>k\<close> at offset \<open>k * sz\<close>, synchronously for the
  last image only; \<open>n\<close> images have been copied before the loop is entered.
\<close>

lemma copy_loop_ocl_trace:
  "d0 + (n + length imgs) * sz < 2 ^ 64 \<Longrightarrow>
   fst (copy_loop_ocl ev imgs (b - n) sz (d0 + n * sz) mg out_ptr) =
     mg\<lparr>trace := trace mg
          @ map (\<lambda>(k, p). CopyData p (d0 + k * sz) (b - Suc k = 0)) (enumerate n imgs)\<rparr>"
proof (induction imgs arbitrary: n mg out_ptr)
  case Nil
  then show ?case by simp
next
  case (Cons i imgs)
  have b: "d0 + (Suc n + length imgs) * sz < 2 ^ 64" using Cons.prems by simp
  then have "d0 + n * sz + sz < 2 ^ 64" by (simp add: algebra_simps)
  then have s: "size_t (d0 + n * sz + sz) = d0 + Suc n * sz"
    by (simp add: size_t_id)
  have i: "b - n - 1 = b - Suc n" by simp
  show ?case
    by (simp only: copy_loop_ocl.simps Let_def s i Cons.IH [OF b])
       (simp add: emit_def)
qed

lemma copy_loop_ocl_bytes:
  "(\<forall>p \<in> set imgs. \<forall>d sy out.
      copy_data ev (images mg p) d sy out = memcpy out d (buffer (images mg p)) sz) \<Longrightarrow>
   snd (copy_loop_ocl ev imgs idx sz dest mg out_ptr) = copy_loop_host imgs sz dest mg out_ptr"
proof (induction imgs arbitrary: idx dest mg out_ptr)
  case Nil
  then show ?case by simp
next
  case (Cons i imgs)
  let ?mg = "emit (CopyData i dest (idx - 1 = 0)) mg"
  have im: "images ?mg = images mg" by simp
  have "\<forall>p \<in> set imgs. \<forall>d sy out.
      copy_data ev (images ?mg p) d sy out = memcpy out d (buffer (images ?mg p)) sz"
    using Cons.prems by simp
  note IH = Cons.IH [OF this]
  have c: "copy_data ev (images mg i) dest (idx - 1 = 0) out_ptr
      = memcpy out_ptr dest (buffer (images mg i)) sz"
    using Cons.prems by simp
  show ?case
    by (simp only: copy_loop_ocl.simps copy_loop_host.simps Let_def IH c
        copy_loop_host_images [OF im])
qed

subsection \<open>The output tensor\<close>

lemma allocations_append [simp]: "allocations (a @ b) = allocations a @ allocations b"
  by (simp add: allocations_def)

lemma create_virtual_images_keeps:
  "allocations (trace (create_virtual_images ev is mg)) = allocations (trace mg)"
  "output_tensor (create_virtual_images ev is mg) = output_tensor mg"
  "output_images (create_virtual_images ev is mg) = output_images mg"
  "output_image_info (create_virtual_images ev is mg) = output_image_info mg"
  by (induction "is" arbitrary: mg) (simp_all add: emit_def allocations_def)

lemma create_nodes_keeps:
  "create_nodes ev ns mg = (r, mg') \<Longrightarrow>
     allocations (trace mg') = allocations (trace mg) \<and>
     output_tensor mg' = output_tensor mg \<and> output_images mg' = output_images mg \<and>
     output_image_info mg' = output_image_info mg"
proof (induction ns arbitrary: mg)
  case Nil
  then show ?case by simp
next
  case (Cons n ns)
  let ?m1 = "create_virtual_images ev (node_output n) mg"
  let ?m2 = "emit (NodeCreate (node_id n)) ?m1"
  have k: "allocations (trace ?m2) = allocations (trace mg)" "output_tensor ?m2 = output_tensor mg"
    "output_images ?m2 = output_images mg" "output_image_info ?m2 = output_image_info mg"
    by (simp_all add: emit_def create_virtual_images_keeps) (simp add: allocations_def)
  show ?case
  proof (cases "node_create ev (node_id n) (trace ?m1)")
    case None
    then have "create_nodes ev ns ?m2 = (r, mg')" using Cons.prems by (simp add: Let_def)
    from Cons.IH [OF this] show ?thesis by (simp only: k) 
  next
    case (Some e)
    then have "mg' = ?m2" using Cons.prems by (simp add: Let_def)
    then show ?thesis by (simp only: k) 
  qed
qed

lemma create_single_graph_keeps:
  assumes "create_single_graph ev mg = (r, mg')"
  shows "allocations (trace mg') = allocations (trace mg) \<and>
     output_tensor mg' = output_tensor mg \<and> output_images mg' = output_images mg \<and>
     output_image_info mg' = output_image_info mg"
proof (cases "graph_create ev (trace mg)")
  case (Inl e)
  then have "mg' = emit GraphCreate mg" using assms by (simp add: create_single_graph_def)
  then show ?thesis by (simp add: emit_def) (simp add: allocations_def)
next
  case (Inr g)
  let ?m1 = "(emit GraphCreate mg)\<lparr>graph := Some g\<rparr>"
  obtain r2 m2 where c: "create_nodes ev (nodes mg) ?m1 = (r2, m2)"
    by (cases "create_nodes ev (nodes mg) ?m1") auto
  have k1: "allocations (trace ?m1) = allocations (trace mg)"
    by (simp add: emit_def) (simp add: allocations_def)
  have k2: "allocations (trace m2) = allocations (trace mg) \<and>
     output_tensor m2 = output_tensor mg \<and> output_images m2 = output_images mg \<and>
     output_image_info m2 = output_image_info mg"
    using create_nodes_keeps [OF c] k1 by (simp add: emit_def)
  have "mg' = m2 \<or> mg' = emit GraphVerify m2"
    using assms Inr c by (auto simp: create_single_graph_def split: sum.splits option.splits)
  then show ?thesis
    using k2 by (auto simp: emit_def) (simp_all add: allocations_def)
qed

lemma allocate_output_tensor_host:
  "mem_type (output_image_info mg) = HOST \<Longrightarrow>
   allocate_output_tensor ev mg = (Inr Status_OK, mg)"
  by (simp add: allocate_output_tensor_def)

lemma allocate_output_tensor_ocl:
  assumes "mem_type (output_image_info mg) = OCL"
    and "allocate_output_tensor ev mg = (Inr st, mg')"
    and "4 * (width (output_image_info mg) * height_batch (output_image_info mg) *
              color_plane_count (output_image_info mg) * length (output_images mg)) < 2 ^ 64"
  shows "allocations (trace mg') = allocations (trace mg) @
           [4 * (width (output_image_info mg) * height_batch (output_image_info mg) *
                 color_plane_count (output_image_info mg) * length (output_images mg))] \<and>
         output_tensor mg' \<noteq> None \<and> output_images mg' = output_images mg \<and>
         output_image_info mg' = output_image_info mg"
proof -
  let ?n = "width (output_image_info mg) * height_batch (output_image_info mg) *
              color_plane_count (output_image_info mg) * length (output_images mg)"
  have n: "?n < 2 ^ 64" using assms(3) by linarith
  have p: "size_t (size_t (size_t (width (output_image_info mg) *
             height_batch (output_image_info mg)) * color_plane_count (output_image_info mg)) *
             length (output_images mg)) = ?n"
    using n by (rule size_t_prod4)
  have q: "size_t (?n * 4) = 4 * ?n" using assms(3) by (simp add: size_t_id mult.commute)
  show ?thesis
    using assms(1,2)
    by (auto simp: allocate_output_tensor_def Let_def p q emit_def split: if_splits)
       (simp_all add: allocations_def)
qed

lemma build_success:
  assumes "build ev mg = (Inr st, mg')"
  obtains front others u mg2 u' mg3 where
    "output_images mg = front # others"
    "\<forall>p \<in> set (output_images mg). info (images mg p) = info (images mg front)"
    "allocate_output_tensor ev
       (mg\<lparr>graph_verfied := False, output_image_info := info (images mg front)\<rparr>) = (Inr u, mg2)"
    "create_single_graph ev mg2 = (Inr u', mg3)"
    "mg' = mg3\<lparr>graph_verfied := True\<rparr>"
  using assms
  by (auto simp: build_def Let_def list_ex_iff
      split: list.splits if_splits prod.splits sum.splits)

lemma build_tensor:
  assumes b: "build ev mg = (Inr st, mg')"
    and sz: "4 * (image_bytes (output_image_info mg') * length (output_images mg')) < 2 ^ 64"
  shows "(\<forall>p \<in> set (output_images mg'). info (images mg p) = output_image_info mg') \<and>
     (mem_type (output_image_info mg') = OCL \<longrightarrow>
        allocations (trace mg') = allocations (trace mg)
          @ [4 * (image_bytes (output_image_info mg') * length (output_images mg'))] \<and>
        output_tensor mg' \<noteq> None) \<and>
     (mem_type (output_image_info mg') = HOST \<longrightarrow>
        allocations (trace mg') = allocations (trace mg) \<and>
        output_tensor mg' = output_tensor mg)"
proof -
  from b obtain front others u mg2 u' mg3 where
    o: "output_images mg = front # others"
    and e: "\<forall>p \<in> set (output_images mg). info (images mg p) = info (images mg front)"
    and a: "allocate_output_tensor ev
       (mg\<lparr>graph_verfied := False, output_image_info := info (images mg front)\<rparr>) = (Inr u, mg2)"
    and c: "create_single_graph ev mg2 = (Inr u', mg3)"
    and m: "mg' = mg3\<lparr>graph_verfied := True\<rparr>"
    by (rule build_success)
  let ?m1 = "mg\<lparr>graph_verfied := False, output_image_info := info (images mg front)\<rparr>"
  note k3 = create_single_graph_keeps [OF c]
  show ?thesis
  proof (cases "mem_type (info (images mg front))")
    case HOST
    then have "mg2 = ?m1" using a by (simp add: allocate_output_tensor_host)
    then show ?thesis using k3 m e HOST by simp
  next
    case OCL
    have i2: "output_image_info mg2 = info (images mg front)" "output_images mg2 = output_images mg"
      using a OCL by (auto simp: allocate_output_tensor_def Let_def emit_def split: if_splits)
    have s1: "4 * (width (output_image_info ?m1) * height_batch (output_image_info ?m1) *
              color_plane_count (output_image_info ?m1) * length (output_images ?m1)) < 2 ^ 64"
      using sz k3 m i2 by (simp add: image_bytes_def)
    have t1: "mem_type (output_image_info ?m1) = OCL" using OCL by simp
    from allocate_output_tensor_ocl [OF t1 a s1] show ?thesis
      using k3 m e OCL by (simp add: image_bytes_def)
  qed
qed

lemma copy_output_host:
  assumes "mem_type (output_image_info mg) = HOST"
    and "length (output_images mg) * image_bytes (output_image_info mg) < 2 ^ 64"
  shows "snd (snd (copy_output ev mg out_ptr)) = images_laid_out mg out_ptr"
proof (cases "output_images mg = []")
  case True
  then show ?thesis using assms(1) by (simp add: copy_output_def Let_def emit_def images_laid_out_def)
next
  case False
  let ?s = "image_bytes (output_image_info mg)"
  have "?s \<le> length (output_images mg) * ?s" using False by (cases "output_images mg") auto
  then have "?s < 2 ^ 64" using assms(2) by linarith
  then have s: "size_t (size_t (width (output_image_info mg) * height_batch (output_image_info mg))
       * color_plane_count (output_image_info mg)) = ?s"
    unfolding image_bytes_def by (rule size_t_prod3)
  have "snd (snd (copy_output ev mg out_ptr))
      = copy_loop_host (output_images mg) ?s 0 mg out_ptr"
    using assms(1)
    by (simp add: copy_output_def Let_def s)
  also have "\<dots> = images_laid_out mg out_ptr"
    using assms(2) by (auto simp: fun_eq_iff copy_loop_host_bytes images_laid_out_def)
  finally show ?thesis .
qed

lemma copy_output_ocl:
  assumes "mem_type (output_image_info mg) = OCL"
    and "length (output_images mg) * image_bytes (output_image_info mg) < 2 ^ 64"
  shows "trace (fst (snd (copy_output ev mg out_ptr))) =
       trace mg @ [TimerStart ConvertTime]
       @ map (\<lambda>(k, p). CopyData p (k * image_bytes (output_image_info mg))
                             (length (output_images mg) - Suc k = 0))
            (enumerate 0 (output_images mg))
       @ [TimerEnd ConvertTime]"
    and "(\<forall>p \<in> set (output_images mg). \<forall>d sy out.
            copy_data ev (images mg p) d sy out
              = memcpy out d (buffer (images mg p)) (image_bytes (output_image_info mg))) \<Longrightarrow>
         snd (snd (copy_output ev mg out_ptr)) = images_laid_out mg out_ptr"
proof -
  let ?s = "image_bytes (output_image_info mg)"
  let ?m1 = "emit (TimerStart ConvertTime) mg"
  have s: "output_images mg \<noteq> [] \<Longrightarrow>
     size_t (size_t (width (output_image_info mg) * height_batch (output_image_info mg))
       * color_plane_count (output_image_info mg)) = ?s"
  proof -
    assume "output_images mg \<noteq> []"
    then have "?s \<le> length (output_images mg) * ?s" by (cases "output_images mg") auto
    then have "?s < 2 ^ 64" using assms(2) by linarith
    then show ?thesis unfolding image_bytes_def by (rule size_t_prod3)
  qed
  have u: "copy_output ev mg out_ptr =
      (Status_OK,
       emit (TimerEnd ConvertTime)
         (fst (copy_loop_ocl ev (output_images mg) (length (output_images mg))
            (size_t (size_t (width (output_image_info mg) * height_batch (output_image_info mg))
               * color_plane_count (output_image_info mg))) 0 ?m1 out_ptr)),
       snd (copy_loop_ocl ev (output_images mg) (length (output_images mg))
            (size_t (size_t (width (output_image_info mg) * height_batch (output_image_info mg))
               * color_plane_count (output_image_info mg))) 0 ?m1 out_ptr))"
    using assms(1) by (simp add: copy_output_def Let_def emit_def)
  have b: "0 + (0 + length (output_images mg)) * ?s < 2 ^ 64" using assms(2) by simp
  show "trace (fst (snd (copy_output ev mg out_ptr))) =
       trace mg @ [TimerStart ConvertTime]
       @ map (\<lambda>(k, p). CopyData p (k * ?s) (length (output_images mg) - Suc k = 0))
            (enumerate 0 (output_images mg))
       @ [TimerEnd ConvertTime]"
  proof (cases "output_images mg = []")
    case True
    then show ?thesis by (simp add: u emit_def)
  next
    case False
    show ?thesis
      using copy_loop_ocl_trace [OF b, of ev "length (output_images mg)" ?m1 out_ptr]
      by (simp add: u s [OF False] emit_def)
  qed
  assume cd: "\<forall>p \<in> set (output_images mg). \<forall>d sy out.
            copy_data ev (images mg p) d sy out = memcpy out d (buffer (images mg p)) ?s"
  show "snd (snd (copy_output ev mg out_ptr)) = images_laid_out mg out_ptr"
  proof (cases "output_images mg = []")
    case True
    then show ?thesis by (simp add: u images_laid_out_def)
  next
    case False
    have cd': "\<forall>p \<in> set (output_images mg). \<forall>d sy out.
            copy_data ev (images ?m1 p) d sy out = memcpy out d (buffer (images ?m1 p)) ?s"
      using cd by simp
    have "snd (snd (copy_output ev mg out_ptr)) = copy_loop_host (output_images mg) ?s 0 mg out_ptr"
      by (simp add: u s [OF False] copy_loop_ocl_bytes [OF cd'])
    also have "\<dots> = images_laid_out mg out_ptr"
      using assms(2) by (auto simp: fun_eq_iff copy_loop_host_bytes images_laid_out_def)
    finally show ?thesis .
  qed
qed

text \<open>
  Claim C5, as amended. Let \<^verbatim>\<open>build\<close> succeed on \<open>B\<close> output images, all of the cached
  descriptor of width \<open>W\<close>, batch-height \<open>H\<close> and plane count \<open>C\<close>, where \<open>4 * W * H * C * B\<close>
  fits \<^verbatim>\<open>size_t\<close>. When the outputs are in device memory, \<^verbatim>\<open>build\<close> creates exactly one
  buffer, of \<open>4 * (W * H * C * B)\<close> bytes, that is of \<open>W * H * C * B\<close> floats, and keeps its
  handle; when they are in host memory it creates no buffer and leaves \<^verbatim>\<open>_output_tensor\<close>
  as it was.

  \<^verbatim>\<open>copy_output(unsigned char *)\<close>, with \<open>s = W * H * C\<close> and \<open>B * s\<close> fitting \<^verbatim>\<open>size_t\<close>: in host
  memory it writes the \<open>s\<close> bytes of output image \<open>k\<close> at offset \<open>k * s\<close>, for \<open>k\<close> from 0 to
  \<open>B - 1\<close> in list order, and no other byte. In device memory it calls \<^verbatim>\<open>copy_data\<close> on
  image \<open>k\<close> with destination offset \<open>k * s\<close>, in list order and synchronously for the
  last image only; the bytes written are then the same, provided \<^verbatim>\<open>copy_data\<close> copies the
  \<open>s\<close> bytes of its image to the address it is given.
\<close>

theorem output_tensor_size_and_raw_copy:
  "(build ev mg = (Inr st, mg') \<longrightarrow>
    4 * (image_bytes (output_image_info mg') * length (output_images mg')) < 2 ^ 64 \<longrightarrow>
      (\<forall>p \<in> set (output_images mg'). info (images mg p) = output_image_info mg') \<and>
      (mem_type (output_image_info mg') = OCL \<longrightarrow>
         allocations (trace mg') = allocations (trace mg)
           @ [4 * (image_bytes (output_image_info mg') * length (output_images mg'))] \<and>
         output_tensor mg' \<noteq> None) \<and>
      (mem_type (output_image_info mg') = HOST \<longrightarrow>
         allocations (trace mg') = allocations (trace mg) \<and>
         output_tensor mg' = output_tensor mg)) \<and>
   (length (output_images m) * image_bytes (output_image_info m) < 2 ^ 64 \<longrightarrow>
      (mem_type (output_image_info m) = HOST \<longrightarrow>
         snd (snd (copy_output ev m out_ptr)) = images_laid_out m out_ptr) \<and>
      (mem_type (output_image_info m) = OCL \<longrightarrow>
         trace (fst (snd (copy_output ev m out_ptr))) =
           trace m @ [TimerStart ConvertTime]
           @ map (\<lambda>(k, p). CopyData p (k * image_bytes (output_image_info m))
                                 (length (output_images m) - Suc k = 0))
                (enumerate 0 (output_images m))
           @ [TimerEnd ConvertTime] \<and>
         ((\<forall>p \<in> set (output_images m). \<forall>d sy out.
             copy_data ev (images m p) d sy out
               = memcpy out d (buffer (images m p)) (image_bytes (output_image_info m))) \<longrightarrow>
          snd (snd (copy_output ev m out_ptr)) = images_laid_out m out_ptr)))"
  using build_tensor [of ev mg st mg'] copy_output_host [of m ev out_ptr]
    copy_output_ocl [of m ev out_ptr]
  by blast

lemmas copy_instance_defs = device_graph_def host_graph_def copying_env_def fresh_graph_def
  quiet_env_def blank_info_def

lemma build_device_graph:
  "build quiet_env device_graph =
     (Inr Status_OK,
      device_graph\<lparr>output_tensor := Some 1, graph := Some 1, graph_verfied := True,
         trace := [ClCreateBuffer 48, GraphCreate, GraphVerify]\<rparr>)"
  by (simp add: build_def allocate_output_tensor_def create_single_graph_def Let_def
      emit_def copy_instance_defs size_t_def)

lemma build_host_graph:
  "build quiet_env host_graph =
     (Inr Status_OK,
      host_graph\<lparr>graph := Some 1, graph_verfied := True, trace := [GraphCreate, GraphVerify]\<rparr>)"
  by (simp add: build_def allocate_output_tensor_def create_single_graph_def Let_def
      emit_def copy_instance_defs)

text \<open>
  Two output images of 2 by 1 pixels and 3 planes (6 bytes each). In device memory
  \<^verbatim>\<open>build\<close> creates one buffer of \<open>4 * 12 = 48\<close> bytes; in host memory it creates none. The
  raw copy puts the bytes 70 to 75 of the first image at offsets 0 to 5 and the bytes
  90 to 95 of the second at offsets 6 to 11, and leaves offset 12 as it was.
\<close>

theorem output_tensor_size_and_raw_copy_witness:
  "allocations (trace (snd (build quiet_env device_graph))) = [48] \<and>
   output_tensor (snd (build quiet_env device_graph)) = Some 1 \<and>
   allocations (trace (snd (build quiet_env host_graph))) = [] \<and>
   map (snd (snd (copy_output quiet_env host_graph (\<lambda>a. 0)))) [0, 5, 6, 11, 12]
     = [70, 75, 90, 95, 0] \<and>
   trace (fst (snd (copy_output copying_env device_graph (\<lambda>a. 0)))) =
     [TimerStart ConvertTime, CopyData 7 0 False, CopyData 9 6 True, TimerEnd ConvertTime] \<and>
   map (snd (snd (copy_output copying_env device_graph (\<lambda>a. 0)))) [0, 5, 6, 11, 12]
     = [70, 75, 90, 95, 0]"
proof -
  have bd: "build quiet_env device_graph = (Inr Status_OK, snd (build quiet_env device_graph))"
    and bh: "build quiet_env host_graph = (Inr Status_OK, snd (build quiet_env host_graph))"
    by (simp_all add: build_device_graph build_host_graph)
  have d: "allocations (trace (snd (build quiet_env device_graph))) = [48] \<and>
      output_tensor (snd (build quiet_env device_graph)) = Some 1"
    using output_tensor_size_and_raw_copy
      [where ev = quiet_env and mg = device_graph and mg' = "snd (build quiet_env device_graph)"
        and st = Status_OK and m = device_graph] bd
    by (simp add: build_device_graph)
       (simp add: copy_instance_defs image_bytes_def allocations_def)
  have h: "allocations (trace (snd (build quiet_env host_graph))) = []"
    using output_tensor_size_and_raw_copy
      [where ev = quiet_env and mg = host_graph and mg' = "snd (build quiet_env host_graph)"
        and st = Status_OK and m = host_graph] bh
    by (simp add: build_host_graph)
       (simp add: copy_instance_defs image_bytes_def allocations_def)
  have ch: "snd (snd (copy_output quiet_env host_graph (\<lambda>a. 0))) = images_laid_out host_graph (\<lambda>a. 0)"
    using output_tensor_size_and_raw_copy
      [where ev = quiet_env and m = host_graph and out_ptr = "\<lambda>a. 0"]
    by (simp add: copy_instance_defs image_bytes_def)
  have cd: "trace (fst (snd (copy_output copying_env device_graph (\<lambda>a. 0)))) =
       [TimerStart ConvertTime, CopyData 7 0 False, CopyData 9 6 True, TimerEnd ConvertTime] \<and>
     snd (snd (copy_output copying_env device_graph (\<lambda>a. 0))) = images_laid_out device_graph (\<lambda>a. 0)"
    using output_tensor_size_and_raw_copy
      [where ev = copying_env and m = device_graph and out_ptr = "\<lambda>a. 0"]
    by (simp add: copy_instance_defs image_bytes_def)
  have l: "map (images_laid_out host_graph (\<lambda>a. 0)) [0, 5, 6, 11, 12] = [70, 75, 90, 95, 0]"
    "map (images_laid_out device_graph (\<lambda>a. 0)) [0, 5, 6, 11, 12] = [70, 75, 90, 95, 0]"
    by (simp_all add: images_laid_out_def copy_instance_defs image_bytes_def)
  show ?thesis using d h ch cd l by simp
qed

text \<open>
  The claim as first stated has \<^verbatim>\<open>build\<close> allocate a tensor of \<open>W * H * C * B\<close> floats for any
  outputs. For the two host-memory output images above, \<open>W * H * C * B = 12\<close>, \<^verbatim>\<open>build\<close>
  succeeds, creates no buffer and leaves \<^verbatim>\<open>_output_tensor\<close> null.
\<close>

theorem host_build_allocates_nothing_counterexample:
  "fst (build quiet_env host_graph) = Inr Status_OK \<and>
   mem_type (output_image_info (snd (build quiet_env host_graph))) = HOST \<and>
   image_bytes (output_image_info (snd (build quiet_env host_graph)))
     * length (output_images (snd (build quiet_env host_graph))) = 12 \<and>
   output_tensor (snd (build quiet_env host_graph)) = None \<and>
   trace (snd (build quiet_env host_graph)) = [GraphCreate, GraphVerify]"
  by (simp add: build_host_graph) (simp add: copy_instance_defs image_bytes_def)

subsection \<open>Loops of stores\<close>

lemma for_each_append:
  "for_each (xs @ ys) body s =
     (case for_each xs body s of Inl e \<Rightarrow> Inl e | Inr s' \<Rightarrow> for_each ys body s')"
  by (induction xs arbitrary: s) (simp_all split: sum.splits)

lemma for_each_map: "for_each (map f xs) body s = for_each xs (\<lambda>x. body (f x)) s"
  by (induction xs arbitrary: s) (simp_all split: sum.splits)

text \<open>Two nested loops are one loop over the pairs, the outer index varying slowest.\<close>

lemma for_each_product:
  "for_each xs (\<lambda>x. for_each ys (body x)) s
     = for_each (List.product xs ys) (\<lambda>(x, y). body x y) s"
proof (induction xs arbitrary: s)
  case Nil
  then show ?case by simp
next
  case (Cons x xs)
  show ?case
    by (simp add: for_each_append for_each_map Cons.IH split: sum.splits)
qed

text \<open>
  A loop whose body stores the value \<open>v x\<close> at the address \<open>idx x\<close>, the addresses being
  pairwise different: it does not fail, every address holds its value afterwards, and
  no other address has changed.
\<close>

lemma for_each_stores:
  assumes "\<forall>x \<in> set xs. body x = (\<lambda>s. Inr (s(idx x := v x)))"
    and "distinct (map idx xs)"
  shows "\<exists>s'. for_each xs body s = Inr s' \<and>
           (\<forall>x \<in> set xs. s' (idx x) = v x) \<and>
           (\<forall>a. a \<notin> idx ` set xs \<longrightarrow> s' a = s a)"
  using assms
proof (induction xs arbitrary: s)
  case Nil
  then show ?case by simp
next
  case (Cons x xs)
  have "body x = (\<lambda>s. Inr (s(idx x := v x)))"
    using Cons.prems(1) by (metis list.set_intros(1))
  then have bx: "body x s = Inr (s(idx x := v x))" by (rule fun_cong)
  have "\<forall>y \<in> set xs. body y = (\<lambda>s. Inr (s(idx y := v y)))"
    using Cons.prems(1) by (meson list.set_intros(2))
  moreover have "distinct (map idx xs)"
    using Cons.prems(2) by simp
  ultimately obtain s' where
    r: "for_each xs body (s(idx x := v x)) = Inr s'"
    and w: "\<forall>y \<in> set xs. s' (idx y) = v y"
    and f: "\<forall>a. a \<notin> idx ` set xs \<longrightarrow> s' a = (s(idx x := v x)) a"
    using Cons.IH [of "s(idx x := v x)"] by blast
  have nx: "idx x \<notin> idx ` set xs" using Cons.prems(2) by simp
  have "for_each (x # xs) body s = Inr s'" by (simp add: bx r)
  moreover have "\<forall>y \<in> set (x # xs). s' (idx y) = v y"
    using w f nx by simp
  moreover have "\<forall>a. a \<notin> idx ` set (x # xs) \<longrightarrow> s' a = s a"
    using f by simp
  ultimately show ?case by blast
qed

lemma for_unsigned_small: "bound < 2 ^ 32 \<Longrightarrow> for_unsigned bound body = for_each [0..<bound] body"
  by (rule ext) (simp add: for_unsigned_def)

text \<open>
  The two nested counting loops of \<^verbatim>\<open>copy_out_tensor\<close>, for a body that stores \<open>v ch i\<close> at
  \<open>dest + rel ch i\<close> where \<open>rel\<close> is one-to-one on the index range.
\<close>

lemma nested_stores:
  fixes dest :: nat
  assumes body: "\<forall>ch < c. \<forall>i < n. body ch i = (\<lambda>s. Inr (s(dest + rel ch i := v ch i)))"
    and inj: "\<forall>ch < c. \<forall>i < n. \<forall>ch' < c. \<forall>i' < n. rel ch i = rel ch' i' \<longrightarrow> ch = ch' \<and> i = i'"
    and c: "c < 2 ^ 32" and n: "n < 2 ^ 32"
  shows "\<exists>s'. for_unsigned c (\<lambda>ch. for_unsigned n (body ch)) s = Inr s' \<and>
           (\<forall>ch < c. \<forall>i < n. s' (dest + rel ch i) = v ch i) \<and>
           (\<forall>a. (\<forall>ch < c. \<forall>i < n. a \<noteq> dest + rel ch i) \<longrightarrow> s' a = s a)"
proof -
  let ?ps = "List.product [0..<c] [0..<n]"
  let ?idx = "\<lambda>(ch, i). dest + rel ch i"
  let ?v = "\<lambda>(ch, i). v ch i"
  have loop: "for_unsigned c (\<lambda>ch. for_unsigned n (body ch)) s
      = for_each ?ps (\<lambda>(ch, i). body ch i) s"
    using c n by (simp add: for_unsigned_small for_each_product)
  have b: "\<forall>x \<in> set ?ps. (\<lambda>(ch, i). body ch i) x = (\<lambda>s. Inr (s(?idx x := ?v x)))"
    using body by auto
  have "inj_on ?idx (set ?ps)"
    using inj by (auto simp: inj_on_def)
  then have d: "distinct (map ?idx ?ps)"
    by (simp add: distinct_map distinct_product)
  from for_each_stores [OF b d, of s] obtain s' where
    r: "for_each ?ps (\<lambda>(ch, i). body ch i) s = Inr s'"
    and w: "\<forall>x \<in> set ?ps. s' (?idx x) = ?v x"
    and f: "\<forall>a. a \<notin> ?idx ` set ?ps \<longrightarrow> s' a = s a"
    by blast
  have "\<forall>ch < c. \<forall>i < n. s' (dest + rel ch i) = v ch i"
    using w by auto
  moreover have "\<forall>a. (\<forall>ch < c. \<forall>i < n. a \<noteq> dest + rel ch i) \<longrightarrow> s' a = s a"
  proof (intro allI impI)
    fix a assume "\<forall>ch < c. \<forall>i < n. a \<noteq> dest + rel ch i"
    then have "a \<notin> ?idx ` set ?ps" by fastforce
    then show "s' a = s a" using f by blast
  qed
  ultimately show ?thesis using loop r by simp
qed

subsection \<open>Index arithmetic of the two tensor layouts\<close>

lemma size_t_sub_id:
  assumes "b \<le> a" "a < 2 ^ 64"
  shows "size_t_sub a b = a - b"
proof -
  have 1: "b mod 2 ^ 64 = b" using assms by simp
  have 2: "a + 2 ^ 64 - b = (a - b) + 2 ^ 64" using assms(1) by simp
  have 3: "a - b < 2 ^ 64" using assms(2) by simp
  have "size_t_sub a b = ((a - b) + 2 ^ 64) mod 2 ^ 64"
    unfolding size_t_sub_def 1 2 ..
  also have "\<dots> = a - b" using 3 by (simp only: mod_add_self2 mod_less)
  finally show ?thesis .
qed

lemma nhwc_bound:
  fixes c :: nat
  assumes "ch < c" "i < n"
  shows "ch + i * c < n * c"
proof -
  have "Suc i * c \<le> n * c" using assms(2) by (intro mult_le_mono1) simp
  then show ?thesis using assms(1) by simp
qed

lemma nchw_bound:
  fixes c :: nat
  assumes "ch < c" "i < n"
  shows "ch * n + i < n * c"
proof -
  have "Suc ch * n \<le> c * n" using assms(1) by (intro mult_le_mono1) simp
  then show ?thesis using assms(2) by (simp add: mult.commute)
qed

lemma nhwc_inj:
  fixes c :: nat
  assumes "ch < c" "ch' < c" "ch + i * c = ch' + i' * c"
  shows "ch = ch' \<and> i = i'"
proof -
  have "(ch + i * c) mod c = ch" "(ch' + i' * c) mod c = ch'"
    using assms(1,2) by simp_all
  then have a: "ch = ch'" using assms(3) by simp
  have "(ch + i * c) div c = i" "(ch' + i' * c) div c = i'"
    using assms(1,2) by simp_all
  then have "i = i'" using assms(3) by simp
  then show ?thesis using a by simp
qed

lemma nchw_inj:
  fixes n :: nat
  assumes "i < n" "i' < n" "ch * n + i = ch' * n + i'"
  shows "ch = ch' \<and> i = i'"
  using nhwc_inj [of i n i' ch ch'] assms by (simp add: add.commute)

text \<open>
  Inside an image block that ends below \<open>2 ^ 64\<close> no index wraps, and with at most three
  planes no array index is out of range: the stores are the plain ones.
\<close>

lemma nhwc_store_plain:
  assumes "ch < c" "c \<le> 3" "i < n" "dest + n * c < 2 ^ 64"
    "length multiplier = 3" "length offset = 3"
  shows "nhwc_store fl multiplier offset reverse_channels in_buffer dest c ch i out_ptr =
     Inr (out_ptr(dest + (ch + i * c) :=
            fadd fl (offset ! ch)
              (fmul fl (multiplier ! ch)
                 (of_uchar fl (in_buffer (i * c + (if reverse_channels then c - 1 - ch else ch)))))))"
proof -
  have b: "ch + i * c < n * c" using assms(1,3) by (rule nhwc_bound)
  have b2: "i * c + c \<le> n * c"
    using assms(3) mult_le_mono1 [of "Suc i" n c] by simp
  have l: "n * c < 2 ^ 64" using assms(4) by linarith
  have o: "size_t (size_t (dest + ch) + size_t (i * c)) = dest + (ch + i * c)"
    using b assms(4) by (simp add: size_t_id)
  have p: "size_t (size_t (i * c) + ch) = i * c + ch"
    using b l by (simp add: size_t_id)
  have q: "size_t_sub (size_t_sub (size_t (size_t (i * c) + c)) ch) 1 = i * c + (c - 1 - ch)"
    using b2 l assms(1) by (simp add: size_t_id size_t_sub_id)
  show ?thesis
    unfolding nhwc_store_def o p q using assms(1,2,5,6) by simp
qed

lemma nchw_store_plain:
  assumes "ch < c" "c \<le> 3" "i < n" "dest + n * c < 2 ^ 64"
    "length multiplier = 3" "length offset = 3"
  shows "nchw_store fl multiplier offset reverse_channels in_buffer dest c n ch i out_ptr =
     Inr (out_ptr(dest + (ch * n + i) :=
            fadd fl (offset ! ch)
              (fmul fl (multiplier ! ch)
                 (of_uchar fl (in_buffer (i * c + (if reverse_channels then c - 1 - ch else ch)))))))"
proof -
  have b: "ch * n + i < n * c" using assms(1,3) by (rule nchw_bound)
  have b1: "ch + i * c < n * c" using assms(1,3) by (rule nhwc_bound)
  have b2: "i * c + c \<le> n * c"
    using assms(3) mult_le_mono1 [of "Suc i" n c] by simp
  have l: "n * c < 2 ^ 64" using assms(4) by linarith
  have o: "size_t (size_t (dest + size_t (ch * n)) + i) = dest + (ch * n + i)"
    using b assms(4) by (simp add: size_t_id)
  have p: "size_t (size_t (c * i) + ch) = i * c + ch"
    using b1 l by (simp add: size_t_id mult.commute)
  have q: "size_t_sub (size_t_sub (size_t (size_t (c * i) + c)) ch) 1 = i * c + (c - 1 - ch)"
    using b2 l assms(1) by (simp add: size_t_id size_t_sub_id mult.commute)
  show ?thesis
    unfolding nchw_store_def o p q using assms(1,2,5,6) by simp
qed

subsection \<open>One image, and the loop over the images\<close>

text \<open>
  Converting one image at offset \<open>dest\<close>: every element of the image's block gets its
  normalised value, and nothing outside the block changes. \<open>rel\<close> is the layout's index
  of channel \<open>ch\<close> of pixel \<open>i\<close> inside the block.
\<close>

lemma convert_image_block:
  fixes dest :: nat
  assumes c: "c \<le> 3" and n: "w * h < 2 ^ 32" and d: "dest + w * h * c < 2 ^ 64"
    and lm: "length multiplier = 3" and lo: "length offset = 3"
    and rel: "rel = (case format of NHWC \<Rightarrow> (\<lambda>ch i. ch + i * c) | NCHW \<Rightarrow> (\<lambda>ch i. ch * (w * h) + i))"
  shows "\<exists>out'. convert_image fl format multiplier offset reverse_channels w h c dest in_buffer out_ptr
              = Inr out' \<and>
           (\<forall>ch < c. \<forall>i < w * h. out' (dest + rel ch i) =
              fadd fl (offset ! ch)
                (fmul fl (multiplier ! ch)
                   (of_uchar fl (in_buffer (i * c + (if reverse_channels then c - 1 - ch else ch)))))) \<and>
           (\<forall>a. a < dest \<or> dest + w * h * c \<le> a \<longrightarrow> out' a = out_ptr a)"
proof -
  let ?n = "w * h"
  let ?v = "\<lambda>ch i. fadd fl (offset ! ch)
                (fmul fl (multiplier ! ch)
                   (of_uchar fl (in_buffer (i * c + (if reverse_channels then c - 1 - ch else ch)))))"
  have sn: "size_t ?n = ?n" using n by (simp add: size_t_id)
  have c32: "c < 2 ^ 32" using c by simp
  have bound: "\<forall>ch < c. \<forall>i < ?n. rel ch i < ?n * c"
    using rel by (cases format) (simp_all add: nhwc_bound nchw_bound)
  have inj: "\<forall>ch < c. \<forall>i < ?n. \<forall>ch' < c. \<forall>i' < ?n. rel ch i = rel ch' i' \<longrightarrow> ch = ch' \<and> i = i'"
  proof (intro allI impI)
    fix ch i ch' i'
    assume ch: "ch < c" and i: "i < ?n" and ch': "ch' < c" and i': "i' < ?n"
      and e: "rel ch i = rel ch' i'"
    show "ch = ch' \<and> i = i'"
    proof (cases format)
      case NHWC
      then have "ch + i * c = ch' + i' * c" using rel e by simp
      then show ?thesis using ch ch' by (rule nhwc_inj [rotated 2])
    next
      case NCHW
      then have "ch * ?n + i = ch' * ?n + i'" using rel e by simp
      then show ?thesis using i i' by (rule nchw_inj [rotated 2])
    qed
  qed
  let ?body = "case format of
      NHWC \<Rightarrow> (\<lambda>ch. nhwc_store fl multiplier offset reverse_channels in_buffer dest c ch)
    | NCHW \<Rightarrow> (\<lambda>ch. nchw_store fl multiplier offset reverse_channels in_buffer dest c ?n ch)"
  have body: "\<forall>ch < c. \<forall>i < ?n. ?body ch i = (\<lambda>s. Inr (s(dest + rel ch i := ?v ch i)))"
  proof (intro allI impI)
    fix ch i assume ch: "ch < c" and i: "i < ?n"
    have d': "dest + ?n * c < 2 ^ 64" using d by simp
    show "?body ch i = (\<lambda>s. Inr (s(dest + rel ch i := ?v ch i)))"
    proof (cases format)
      case NHWC
      then show ?thesis
        using rel nhwc_store_plain [OF ch c i d' lm lo, of fl reverse_channels in_buffer]
        by (simp add: fun_eq_iff)
    next
      case NCHW
      then show ?thesis
        using rel nchw_store_plain [OF ch c i d' lm lo, of fl reverse_channels in_buffer]
        by (simp add: fun_eq_iff)
    qed
  qed
  have conv: "convert_image fl format multiplier offset reverse_channels w h c dest in_buffer out_ptr
      = for_unsigned c (\<lambda>ch. for_unsigned ?n (?body ch)) out_ptr"
    by (cases format) (simp_all add: convert_image_def sn split: sum.splits)
  from nested_stores [OF body inj c32 n, of out_ptr] obtain out' where
    r: "for_unsigned c (\<lambda>ch. for_unsigned ?n (?body ch)) out_ptr = Inr out'"
    and w: "\<forall>ch < c. \<forall>i < ?n. out' (dest + rel ch i) = ?v ch i"
    and f: "\<forall>a. (\<forall>ch < c. \<forall>i < ?n. a \<noteq> dest + rel ch i) \<longrightarrow> out' a = out_ptr a"
    by blast
  have "\<forall>a. a < dest \<or> dest + ?n * c \<le> a \<longrightarrow> out' a = out_ptr a"
  proof (intro allI impI)
    fix a assume a: "a < dest \<or> dest + ?n * c \<le> a"
    have "\<forall>ch < c. \<forall>i < ?n. a \<noteq> dest + rel ch i"
    proof (intro allI impI)
      fix ch i assume "ch < c" "i < ?n"
      then have "rel ch i < ?n * c" using bound by simp
      then show "a \<noteq> dest + rel ch i" using a by linarith
    qed
    then show "out' a = out_ptr a" using f by simp
  qed
  then show ?thesis using conv r w by simp
qed

lemma layout_bound:
  fixes rel :: "nat \<Rightarrow> nat \<Rightarrow> nat"
  assumes "rel = (case format of NHWC \<Rightarrow> (\<lambda>ch i. ch + i * c) | NCHW \<Rightarrow> (\<lambda>ch i. ch * (w * h) + i))"
    and "ch < c" "i < w * h"
  shows "rel ch i < w * h * c"
  using assms nhwc_bound [of ch c i "w * h"] nchw_bound [of ch c i "w * h"]
  by (cases format) simp_all

text \<open>
  The loop over the output images: image \<open>k\<close> of the list fills the block that starts at
  \<open>dest + k * (w * h * c)\<close>, and later images leave earlier blocks alone.
\<close>

lemma host_loop_blocks:
  fixes dest :: nat
  assumes c: "c \<le> 3" and n: "w * h < 2 ^ 32"
    and lm: "length multiplier = 3" and lo: "length offset = 3"
    and rel: "rel = (case format of NHWC \<Rightarrow> (\<lambda>ch i. ch + i * c) | NCHW \<Rightarrow> (\<lambda>ch i. ch * (w * h) + i))"
  shows "dest + length imgs * (w * h * c) < 2 ^ 64 \<Longrightarrow>
     \<exists>out'. host_loop fl format multiplier offset reverse_channels w h c (w * h * c) imgs dest mg out_ptr
              = Inr out' \<and>
       (\<forall>k < length imgs. \<forall>ch < c. \<forall>i < w * h.
          out' (dest + k * (w * h * c) + rel ch i) =
            fadd fl (offset ! ch)
              (fmul fl (multiplier ! ch)
                 (of_uchar fl (buffer (images mg (imgs ! k))
                    (i * c + (if reverse_channels then c - 1 - ch else ch)))))) \<and>
       (\<forall>a < dest. out' a = out_ptr a)"
proof (induction imgs arbitrary: dest out_ptr)
  case Nil
  then show ?case by simp
next
  case (Cons img imgs)
  let ?S = "w * h * c"
  let ?V = "\<lambda>p ch i. fadd fl (offset ! ch)
              (fmul fl (multiplier ! ch)
                 (of_uchar fl (buffer (images mg p)
                    (i * c + (if reverse_channels then c - 1 - ch else ch)))))"
  have d: "dest + ?S < 2 ^ 64" using Cons.prems by simp
  have d': "dest + ?S + length imgs * ?S < 2 ^ 64" using Cons.prems by simp
  from convert_image_block [OF c n d lm lo rel, of fl reverse_channels "buffer (images mg img)" out_ptr]
  obtain out1 where
    r1: "convert_image fl format multiplier offset reverse_channels w h c dest
           (buffer (images mg img)) out_ptr = Inr out1"
    and w1: "\<forall>ch < c. \<forall>i < w * h. out1 (dest + rel ch i) = ?V img ch i"
    and f1: "\<forall>a. a < dest \<or> dest + ?S \<le> a \<longrightarrow> out1 a = out_ptr a"
    by blast
  from Cons.IH [OF d', of out1] obtain out' where
    r2: "host_loop fl format multiplier offset reverse_channels w h c ?S imgs (dest + ?S) mg out1
           = Inr out'"
    and w2: "\<forall>k < length imgs. \<forall>ch < c. \<forall>i < w * h.
          out' (dest + ?S + k * ?S + rel ch i) = ?V (imgs ! k) ch i"
    and f2: "\<forall>a < dest + ?S. out' a = out1 a"
    by blast
  have s: "size_t (dest + ?S) = dest + ?S" using d by (simp add: size_t_id)
  have run: "host_loop fl format multiplier offset reverse_channels w h c ?S (img # imgs) dest mg out_ptr
      = Inr out'"
    by (simp only: host_loop.simps r1 sum.case s r2)
  have wr: "\<forall>k < length (img # imgs). \<forall>ch < c. \<forall>i < w * h.
      out' (dest + k * ?S + rel ch i) = ?V ((img # imgs) ! k) ch i"
  proof (intro allI impI)
    fix k ch i assume k: "k < length (img # imgs)" and ch: "ch < c" and i: "i < w * h"
    have b: "rel ch i < ?S" using rel ch i by (rule layout_bound)
    show "out' (dest + k * ?S + rel ch i) = ?V ((img # imgs) ! k) ch i"
    proof (cases k)
      case 0
      have "out' (dest + rel ch i) = out1 (dest + rel ch i)" using f2 b by simp
      moreover have "out1 (dest + rel ch i) = ?V img ch i" using w1 ch i by blast
      moreover have "dest + k * ?S + rel ch i = dest + rel ch i" "(img # imgs) ! k = img"
        using 0 by simp_all
      ultimately show ?thesis by (simp only:)
    next
      case (Suc k')
      then have k': "k' < length imgs" using k by simp
      have e: "dest + k * ?S + rel ch i = dest + ?S + k' * ?S + rel ch i"
        using Suc by simp
      have "out' (dest + ?S + k' * ?S + rel ch i) = ?V (imgs ! k') ch i"
        using w2 k' ch i by blast
      moreover have "(img # imgs) ! k = imgs ! k'" using Suc by simp
      ultimately show ?thesis by (simp only: e)
    qed
  qed
  have fr: "\<forall>a < dest. out' a = out_ptr a"
    using f1 f2 by simp
  show ?case using run wr fr by blast
qed

text \<open>
  Claim C1. In host memory, with at most three colour planes (the arrays \<^verbatim>\<open>multiplier\<close>
  and \<^verbatim>\<open>offset\<close> have three entries), fewer than \<open>2 ^ 32\<close> pixels per image (the pixel
  counter is an \<^verbatim>\<open>unsigned\<close>) and a batch of fewer than \<open>2 ^ 64\<close> elements,
  \<^verbatim>\<open>copy_out_tensor\<close> returns \<^verbatim>\<open>OK\<close>, and for output image \<open>k\<close>, pixel \<open>i\<close> and channel \<open>ch\<close> the
  float at index \<open>k * (w * h * C) + ch + i * C\<close> (\<^verbatim>\<open>NHWC\<close>) or \<open>k * (w * h * C) + ch * (w * h) + i\<close>
  (\<^verbatim>\<open>NCHW\<close>) of the destination is \<open>offset[ch] + multiplier[ch] * source\<close>, where \<open>source\<close>
  is the input byte of image \<open>k\<close> at channel \<open>ch\<close> of pixel \<open>i\<close>, or at channel \<open>C - 1 - ch\<close>
  when \<^verbatim>\<open>reverse_channels\<close> is set. The sum, the product and the conversion of the byte
  are the float operations, whatever they compute.
\<close>

theorem copy_out_tensor_host:
  assumes host: "mem_type (output_image_info mg) = HOST"
    and W: "W = width (output_image_info mg)"
    and H: "H = height_batch (output_image_info mg)"
    and C: "C = color_plane_count (output_image_info mg)"
    and planes: "C \<le> 3"
    and pixels: "W * H < 2 ^ 32"
    and batch: "length (output_images mg) * (W * H * C) < 2 ^ 64"
    and k: "k < length (output_images mg)" and i: "i < W * H" and ch: "ch < C"
  shows "\<exists>mg' out'.
     copy_out_tensor ev fl dev mg out_ptr format multiplier0 multiplier1 multiplier2
       offset0 offset1 offset2 reverse_channels = (Inr Status_OK, mg', out') \<and>
     out' (k * (W * H * C) + (case format of NHWC \<Rightarrow> ch + i * C | NCHW \<Rightarrow> ch * (W * H) + i)) =
       fadd fl ([offset0, offset1, offset2] ! ch)
         (fmul fl ([multiplier0, multiplier1, multiplier2] ! ch)
            (of_uchar fl (buffer (images mg (output_images mg ! k))
               (i * C + (if reverse_channels then C - 1 - ch else ch)))))"
proof -
  let ?rel = "case format of NHWC \<Rightarrow> (\<lambda>ch i. ch + i * C) | NCHW \<Rightarrow> (\<lambda>ch i. ch * (W * H) + i)"
  let ?m1 = "emit (TimerStart ConvertTime) mg"
  have pos: "0 < W * H" using i by (rule le_less_trans [OF le0])
  then have le: "W \<le> W * H" "H \<le> W * H" by simp_all
  have "W < 2 ^ 32" using le(1) pixels by (rule le_less_trans)
  moreover have "H < 2 ^ 32" using le(2) pixels by (rule le_less_trans)
  ultimately have "W < 2 ^ 32" "H < 2 ^ 32" by blast+
  then have w: "size_t W = W" and h: "size_t H = H" and c: "size_t C = C"
    using planes by (simp_all add: size_t_id)
  have "W * H * C \<le> length (output_images mg) * (W * H * C)" using k by simp
  then have "W * H * C < 2 ^ 64" using batch by linarith
  then have s: "size_t (size_t (W * H) * C) = W * H * C" by (rule size_t_prod3)
  have b: "0 + length (output_images mg) * (W * H * C) < 2 ^ 64" using batch by simp
  have "\<exists>out'. host_loop fl format [multiplier0, multiplier1, multiplier2] [offset0, offset1, offset2]
          reverse_channels W H C (W * H * C) (output_images mg) 0 ?m1 out_ptr = Inr out' \<and>
       (\<forall>k < length (output_images mg). \<forall>ch < C. \<forall>i < W * H.
          out' (0 + k * (W * H * C) + ?rel ch i) =
            fadd fl ([offset0, offset1, offset2] ! ch)
              (fmul fl ([multiplier0, multiplier1, multiplier2] ! ch)
                 (of_uchar fl (buffer (images ?m1 (output_images mg ! k))
                    (i * C + (if reverse_channels then C - 1 - ch else ch)))))) \<and>
       (\<forall>a < 0. out' a = out_ptr a)"
    by (rule host_loop_blocks [where rel = ?rel]) (use planes pixels b in simp_all)
  then obtain out' where
    r: "host_loop fl format [multiplier0, multiplier1, multiplier2] [offset0, offset1, offset2]
          reverse_channels W H C (W * H * C) (output_images mg) 0 ?m1 out_ptr = Inr out'"
    and wr: "\<forall>k < length (output_images mg). \<forall>ch < C. \<forall>i < W * H.
          out' (0 + k * (W * H * C) + ?rel ch i) =
            fadd fl ([offset0, offset1, offset2] ! ch)
              (fmul fl ([multiplier0, multiplier1, multiplier2] ! ch)
                 (of_uchar fl (buffer (images ?m1 (output_images mg ! k))
                    (i * C + (if reverse_channels then C - 1 - ch else ch)))))"
    by blast
  have call: "copy_out_tensor ev fl dev mg out_ptr format multiplier0 multiplier1 multiplier2
       offset0 offset1 offset2 reverse_channels
       = (Inr Status_OK, emit (TimerEnd ConvertTime) ?m1, out')"
    using host r
    by (simp add: copy_out_tensor_def Let_def W [symmetric] H [symmetric] C [symmetric] w h c s)
  have "out' (k * (W * H * C) + ?rel ch i) =
       fadd fl ([offset0, offset1, offset2] ! ch)
         (fmul fl ([multiplier0, multiplier1, multiplier2] ! ch)
            (of_uchar fl (buffer (images mg (output_images mg ! k))
               (i * C + (if reverse_channels then C - 1 - ch else ch)))))"
    using wr k ch i by simp
  moreover have "?rel ch i = (case format of NHWC \<Rightarrow> ch + i * C | NCHW \<Rightarrow> ch * (W * H) + i)"
    by (cases format) simp_all
  ultimately show ?thesis using call by simp
qed

text \<open>
  Two output images of 2 by 1 pixels and 3 planes, multipliers 2, 3, 5 and offsets 100,
  200, 300, channels reversed. Channel 0 of pixel 1 of the second image reads source
  channel 2, the byte 95, and becomes \<open>100 + 2 * 95 = 290\<close>: at index \<open>6 + 0 + 1 * 3 = 9\<close> in
  \<^verbatim>\<open>NHWC\<close> and at index \<open>6 + 0 * 2 + 1 = 7\<close> in \<^verbatim>\<open>NCHW\<close>.
\<close>

theorem copy_out_tensor_host_witness:
  "fst (copy_out_tensor quiet_env exact_ops (\<lambda>t a. 0) host_graph (\<lambda>a. 0) NHWC
          2 3 5 100 200 300 True) = Inr Status_OK \<and>
   snd (snd (copy_out_tensor quiet_env exact_ops (\<lambda>t a. 0) host_graph (\<lambda>a. 0) NHWC
          2 3 5 100 200 300 True)) 9 = 290 \<and>
   snd (snd (copy_out_tensor quiet_env exact_ops (\<lambda>t a. 0) host_graph (\<lambda>a. 0) NCHW
          2 3 5 100 200 300 True)) 7 = 290"
proof -
  have g: "mem_type (output_image_info host_graph) = HOST"
    "2 = width (output_image_info host_graph)"
    "1 = height_batch (output_image_info host_graph)"
    "3 = color_plane_count (output_image_info host_graph)"
    "length (output_images host_graph) * (2 * 1 * 3) < 2 ^ 64"
    "1 < length (output_images host_graph)"
    by (simp_all add: host_graph_def fresh_graph_def blank_info_def)
  have v: "buffer (images host_graph (output_images host_graph ! Suc 0)) 5 = 95"
    by (simp add: host_graph_def fresh_graph_def)
  have a: "\<exists>mg' out'.
     copy_out_tensor quiet_env exact_ops (\<lambda>t a. 0) host_graph (\<lambda>a. 0) NHWC
       2 3 5 100 200 300 True = (Inr Status_OK, mg', out') \<and> out' 9 = 290"
    using copy_out_tensor_host [OF g(1) g(2) g(3) g(4) _ _ g(5) g(6), where i = 1 and ch = 0
        and ev = quiet_env and fl = exact_ops and dev = "\<lambda>t a. 0" and out_ptr = "\<lambda>a. 0"
        and format = NHWC and reverse_channels = True
        and ?multiplier0.0 = 2 and ?multiplier1.0 = 3 and ?multiplier2.0 = 5
        and ?offset0.0 = 100 and ?offset1.0 = 200 and ?offset2.0 = 300]
    by (simp add: exact_ops_def v)
  have b: "\<exists>mg' out'.
     copy_out_tensor quiet_env exact_ops (\<lambda>t a. 0) host_graph (\<lambda>a. 0) NCHW
       2 3 5 100 200 300 True = (Inr Status_OK, mg', out') \<and> out' 7 = 290"
    using copy_out_tensor_host [OF g(1) g(2) g(3) g(4) _ _ g(5) g(6), where i = 1 and ch = 0
        and ev = quiet_env and fl = exact_ops and dev = "\<lambda>t a. 0" and out_ptr = "\<lambda>a. 0"
        and format = NCHW and reverse_channels = True
        and ?multiplier0.0 = 2 and ?multiplier1.0 = 3 and ?multiplier2.0 = 5
        and ?offset0.0 = 100 and ?offset1.0 = 200 and ?offset2.0 = 300]
    by (simp add: exact_ops_def v)
  show ?thesis using a b by auto
qed

subsection \<open>Validation of the WarpAffine node\<close>

lemma check_scalars_fail: "check_scalars fw ks = Some st \<Longrightarrow> st \<noteq> VX_SUCCESS"
  by (induction ks) (auto split: if_splits)

lemma STATUS_ERROR_CHECK_success:
  "fst (STATUS_ERROR_CHECK call s continue) = VX_SUCCESS
     \<longleftrightarrow> call = VX_SUCCESS \<and> fst continue = VX_SUCCESS"
  by (simp add: STATUS_ERROR_CHECK_def)

lemma STATUS_ERROR_CHECK_pass: "STATUS_ERROR_CHECK VX_SUCCESS s continue = continue"
  by (simp add: STATUS_ERROR_CHECK_def)

text \<open>Whatever the framework answers, validation succeeds only on the two formats.\<close>

lemma validateWarpAffine_accepts:
  assumes "fst (validateWarpAffine fw metas) = VX_SUCCESS"
  shows "snd (vxQueryImage_format fw (snd (vxQueryParameter fw 0))) = VX_DF_IMAGE_U8 \<or>
         snd (vxQueryImage_format fw (snd (vxQueryParameter fw 0))) = VX_DF_IMAGE_RGB"
proof (cases "check_scalars fw
             [(2, VX_TYPE_INT32), (3, VX_TYPE_INT32), (4, VX_TYPE_FLOAT32), (5, VX_TYPE_FLOAT32),
              (6, VX_TYPE_FLOAT32), (7, VX_TYPE_FLOAT32), (8, VX_TYPE_FLOAT32),
              (9, VX_TYPE_FLOAT32)]")
  case (Some st)
  then have "fst (validateWarpAffine fw metas) = st" by (simp add: validateWarpAffine_def)
  then show ?thesis using check_scalars_fail [OF Some] assms by simp
next
  case None
  have "(if snd (vxQueryImage_format fw (snd (vxQueryParameter fw 0))) \<noteq> VX_DF_IMAGE_U8 \<and>
            snd (vxQueryImage_format fw (snd (vxQueryParameter fw 0))) \<noteq> VX_DF_IMAGE_RGB
         then VX_ERROR_INVALID_VALUE else VX_SUCCESS) = VX_SUCCESS"
    using assms
    by (simp only: validateWarpAffine_def None option.case Let_def
        STATUS_ERROR_CHECK_success fst_conv)
  then show ?thesis by (simp split: if_splits)
qed

text \<open>
  Claim C8. Validation of the WarpAffine node returns \<^verbatim>\<open>VX_SUCCESS\<close> only when the format of
  the input image is \<^verbatim>\<open>VX_DF_IMAGE_U8\<close> or \<^verbatim>\<open>VX_DF_IMAGE_RGB\<close>. When the scalar parameters
  have their registered types and the framework's queries and stores succeed, it
  returns \<^verbatim>\<open>VX_SUCCESS\<close> for these two formats and \<^verbatim>\<open>VX_ERROR_INVALID_VALUE\<close> for every other
  one, and in both cases it has set the format of \<^verbatim>\<open>metas[1]\<close> to the input's and the
  height and width of \<^verbatim>\<open>metas[1]\<close> to those of the output image, leaving all other meta
  formats as they were.
\<close>

theorem validateWarpAffine_formats:
  "(fst (validateWarpAffine fw metas) = VX_SUCCESS \<longrightarrow>
      snd (vxQueryImage_format fw (snd (vxQueryParameter fw 0))) = VX_DF_IMAGE_U8 \<or>
      snd (vxQueryImage_format fw (snd (vxQueryParameter fw 0))) = VX_DF_IMAGE_RGB) \<and>
   ((\<forall>k \<in> {2, 3}. vxQueryScalar fw k = (VX_SUCCESS, VX_TYPE_INT32)) \<longrightarrow>
    (\<forall>k \<in> {4, 5, 6, 7, 8, 9}. vxQueryScalar fw k = (VX_SUCCESS, VX_TYPE_FLOAT32)) \<longrightarrow>
    vxQueryParameter fw 0 = (VX_SUCCESS, input_image) \<longrightarrow>
    vxQueryParameter fw 1 = (VX_SUCCESS, output_image) \<longrightarrow>
    vxQueryImage_format fw input_image = (VX_SUCCESS, df_image) \<longrightarrow>
    vxQueryImage_height fw output_image = (VX_SUCCESS, out_height) \<longrightarrow>
    vxQueryImage_width fw output_image = (VX_SUCCESS, out_width) \<longrightarrow>
    (\<forall>a. vxSetMetaFormatAttribute fw a = VX_SUCCESS) \<longrightarrow>
      validateWarpAffine fw metas =
        (if df_image = VX_DF_IMAGE_U8 \<or> df_image = VX_DF_IMAGE_RGB
         then VX_SUCCESS else VX_ERROR_INVALID_VALUE,
         metas(1 := (metas 1)\<lparr>meta_format := Some df_image, meta_height := Some out_height,
                              meta_width := Some out_width\<rparr>)))"
proof (intro conjI impI)
  assume "fst (validateWarpAffine fw metas) = VX_SUCCESS"
  then show "snd (vxQueryImage_format fw (snd (vxQueryParameter fw 0))) = VX_DF_IMAGE_U8 \<or>
      snd (vxQueryImage_format fw (snd (vxQueryParameter fw 0))) = VX_DF_IMAGE_RGB"
    by (rule validateWarpAffine_accepts)
next
  assume i: "\<forall>k \<in> {2, 3}. vxQueryScalar fw k = (VX_SUCCESS, VX_TYPE_INT32)"
    and f: "\<forall>k \<in> {4, 5, 6, 7, 8, 9}. vxQueryScalar fw k = (VX_SUCCESS, VX_TYPE_FLOAT32)"
    and q: "vxQueryParameter fw 0 = (VX_SUCCESS, input_image)"
      "vxQueryParameter fw 1 = (VX_SUCCESS, output_image)"
      "vxQueryImage_format fw input_image = (VX_SUCCESS, df_image)"
      "vxQueryImage_height fw output_image = (VX_SUCCESS, out_height)"
      "vxQueryImage_width fw output_image = (VX_SUCCESS, out_width)"
      "\<forall>a. vxSetMetaFormatAttribute fw a = VX_SUCCESS"
  have c: "check_scalars fw
             [(2, VX_TYPE_INT32), (3, VX_TYPE_INT32), (4, VX_TYPE_FLOAT32), (5, VX_TYPE_FLOAT32),
              (6, VX_TYPE_FLOAT32), (7, VX_TYPE_FLOAT32), (8, VX_TYPE_FLOAT32),
              (9, VX_TYPE_FLOAT32)] = None"
    using i f by simp
  have m: "\<And>a. vxSetMetaFormatAttribute fw a = VX_SUCCESS" using q(6) by blast
  show "validateWarpAffine fw metas =
        (if df_image = VX_DF_IMAGE_U8 \<or> df_image = VX_DF_IMAGE_RGB
         then VX_SUCCESS else VX_ERROR_INVALID_VALUE,
         metas(1 := (metas 1)\<lparr>meta_format := Some df_image, meta_height := Some out_height,
                              meta_width := Some out_width\<rparr>))"
    unfolding validateWarpAffine_def c option.case Let_def q(1-5) m fst_conv snd_conv
      STATUS_ERROR_CHECK_pass
    by (auto simp: fun_eq_iff)
qed

text \<open>
  A well-formed node with an RGB input is accepted, one with a virtual-format input is
  rejected with \<^verbatim>\<open>VX_ERROR_INVALID_VALUE\<close>; either way \<^verbatim>\<open>metas[1]\<close> gets the output image's 480
  by 640.
\<close>

theorem validateWarpAffine_formats_witness:
  "validateWarpAffine (warp_node VX_DF_IMAGE_RGB) no_meta =
     (VX_SUCCESS,
      no_meta(1 := \<lparr>meta_format = Some VX_DF_IMAGE_RGB, meta_height = Some 480,
                     meta_width = Some 640\<rparr>)) \<and>
   validateWarpAffine (warp_node VX_DF_IMAGE_VIRT) no_meta =
     (VX_ERROR_INVALID_VALUE,
      no_meta(1 := \<lparr>meta_format = Some VX_DF_IMAGE_VIRT, meta_height = Some 480,
                     meta_width = Some 640\<rparr>))"
  using validateWarpAffine_formats
      [where fw = "warp_node VX_DF_IMAGE_RGB" and metas = no_meta and input_image = 0
        and output_image = 1 and df_image = VX_DF_IMAGE_RGB and out_height = 480 and out_width = 640]
    validateWarpAffine_formats
      [where fw = "warp_node VX_DF_IMAGE_VIRT" and metas = no_meta and input_image = 0
        and output_image = 1 and df_image = VX_DF_IMAGE_VIRT and out_height = 480 and out_width = 640]
  by (simp add: warp_node_def no_meta_def)

end
